theory Spec2Isabelle
  imports Complex_Main "HOL-Library.Sublist"
begin

section \<open>Data model (app/db/models.py)\<close>

text \<open>
  Python values that occur in the specification bag (\<^verbatim>\<open>Dict[str, Any]\<close>): integers,
  floats, strings and lists of strings. A float is a finite float, idealised as a real:
  there is no rounding, and NaN and the infinities are not values of this development.
\<close>

datatype pyval = PInt int | PFloat real | PStr string | PList "string list"

text \<open>
  Failures: \<open>TypeError\<close> is what an operation of the source raises on a value of the
  wrong Python type, \<open>OverflowError\<close> what it raises on an integer beyond the float
  range, \<open>NotFound\<close> is the checker's answer to an unknown identity, \<open>DataError\<close> is
  the database refusing a row at commit.
\<close>

datatype error = TypeError | OverflowError | NotFound | DataError

text \<open>
  A dictionary with string keys, in insertion order. \<open>dict_get\<close> is \<^verbatim>\<open>d.get(k)\<close>,
  \<open>dict_set\<close> is \<^verbatim>\<open>d[k] = v\<close>.
\<close>

type_synonym dict = "(string \<times> pyval) list"

definition dict_get :: "dict \<Rightarrow> string \<Rightarrow> pyval option" where
  "dict_get d k = map_of d k"

fun dict_set :: "string \<Rightarrow> pyval \<Rightarrow> dict \<Rightarrow> dict" where
  "dict_set k v [] = [(k, v)]"
| "dict_set k v (p # ps) = (if fst p = k then (k, v) # ps else p # dict_set k v ps)"

datatype ComponentType = CPU | GPU | MOTHERBOARD | RAM | STORAGE | PSU | CASE | COOLING

text \<open>The \<^verbatim>\<open>.value\<close> of the enumeration \<^verbatim>\<open>ComponentType\<close>.\<close>

fun type_value :: "ComponentType \<Rightarrow> string" where
  "type_value CPU = ''cpu''"
| "type_value GPU = ''gpu''"
| "type_value MOTHERBOARD = ''motherboard''"
| "type_value RAM = ''ram''"
| "type_value STORAGE = ''storage''"
| "type_value PSU = ''psu''"
| "type_value CASE = ''case''"
| "type_value COOLING = ''cooling''"

text \<open>
  A row of the table \<^verbatim>\<open>components\<close>. Nullable columns are options. Timestamps are
  microseconds since the epoch. The columns the modelled functions never read or write
  (condition, stock quantity, source, seller, PCIe slots, creation time) live in the
  record's extension part, so every statement below about a row covers them too.
\<close>

record Component =
  comp_id :: int
  component_type :: ComponentType
  name :: string
  manufacturer :: "string option"
  model :: "string option"
  price_dzd :: real
  in_stock :: "bool option"
  specs :: "dict option"
  benchmark_score :: "real option"
  gaming_score :: "real option"
  productivity_score :: "real option"
  ai_score :: "real option"
  socket_type :: "string option"
  chipset :: "string option"
  ram_type :: "string option"
  ram_speed :: "int option"
  tdp_watts :: "int option"
  form_factor :: "string option"
  last_scraped_at :: "int option"

section \<open>Staleness sweep (app/tasks/scraper_tasks.py, mark\_out\_of\_stock)\<close>

definition hours :: "int \<Rightarrow> int" where
  "hours n = n * 3600 * 1000000"

text \<open>
  The filter of the bulk update: \<^verbatim>\<open>last_scraped_at < cutoff\<close> and
  \<^verbatim>\<open>in_stock == True\<close>. A NULL on either side makes the SQL comparison unknown, and
  the row is not selected.
\<close>

definition sweep_selects :: "int \<Rightarrow> 'a Component_scheme \<Rightarrow> bool" where
  "sweep_selects cutoff c =
     ((case last_scraped_at c of None \<Rightarrow> False | Some t \<Rightarrow> t < cutoff) \<and> in_stock c = Some True)"

text \<open>
  \<open>mark_out_of_stock now db\<close> is the table after the sweep run at time \<open>now\<close>,
  with the number of rows updated.
\<close>

definition mark_out_of_stock ::
    "int \<Rightarrow> 'a Component_scheme list \<Rightarrow> 'a Component_scheme list \<times> nat" where
  "mark_out_of_stock now db =
     (let cutoff = now - hours 48
      in (map (\<lambda>c. if sweep_selects cutoff c then c\<lparr>in_stock := Some False\<rparr> else c) db,
          length (filter (sweep_selects cutoff) db)))"

section \<open>Python helpers\<close>

text \<open>\<open>contains sub s\<close> is the Python test \<^verbatim>\<open>sub in s\<close> on two strings.\<close>

fun contains :: "string \<Rightarrow> string \<Rightarrow> bool" where
  "contains sub [] = (sub = [])"
| "contains sub (c # cs) = (prefix sub (c # cs) \<or> contains sub cs)"

text \<open>Truth value of an optional string: \<^verbatim>\<open>None\<close> and \<^verbatim>\<open>""\<close> are false.\<close>

fun truthy_str :: "string option \<Rightarrow> bool" where
  "truthy_str None = False"
| "truthy_str (Some s) = (s \<noteq> [])"

text \<open>
  A value as a number, where Python's ordering accepts it: an integer and a float are
  compared exactly. Comparing a string or a list with a number raises
  \<^verbatim>\<open>TypeError\<close>.
\<close>

fun as_number :: "pyval \<Rightarrow> error + real" where
  "as_number (PInt i) = Inr (real_of_int i)"
| "as_number (PFloat x) = Inr x"
| "as_number (PStr s) = Inl TypeError"
| "as_number (PList xs) = Inl TypeError"

text \<open>
  The float range: an integer is converted to a float when its magnitude, rounded to
  the nearest float, is a float; from \<open>2^1024 - 2^970\<close> on the conversion raises
  \<^verbatim>\<open>OverflowError\<close>.
\<close>

definition FLOAT_LIMIT :: real where
  "FLOAT_LIMIT = 2 ^ 1024 - 2 ^ 970"

text \<open>
  A value as the operand of an arithmetic operation with a float (\<^verbatim>\<open>x * 1.5\<close>,
  \<^verbatim>\<open>x - 3.0\<close>): an integer is converted first.
\<close>

fun as_float :: "pyval \<Rightarrow> error + real" where
  "as_float (PInt i) =
     (if \<bar>real_of_int i\<bar> < FLOAT_LIMIT then Inr (real_of_int i) else Inl OverflowError)"
| "as_float (PFloat x) = Inr x"
| "as_float (PStr s) = Inl TypeError"
| "as_float (PList xs) = Inl TypeError"

text \<open>
  True division by a positive integer constant (\<^verbatim>\<open>x / 32\<close>): on an integer it raises
  \<^verbatim>\<open>OverflowError\<close> when the quotient is beyond the float range.
\<close>

fun true_div :: "pyval \<Rightarrow> int \<Rightarrow> error + real" where
  "true_div (PInt i) n =
     (if \<bar>real_of_int i / real_of_int n\<bar> < FLOAT_LIMIT
      then Inr (real_of_int i / real_of_int n) else Inl OverflowError)"
| "true_div (PFloat x) n = Inr (x / real_of_int n)"
| "true_div (PStr s) n = Inl TypeError"
| "true_div (PList xs) n = Inl TypeError"

text \<open>\<^verbatim>\<open>d.get(k, default)\<close>.\<close>

definition get_or :: "dict \<Rightarrow> string \<Rightarrow> pyval \<Rightarrow> pyval" where
  "get_or d k dflt = (case dict_get d k of None \<Rightarrow> dflt | Some v \<Rightarrow> v)"

section \<open>Agent tools (app/agent/tools.py)\<close>

text \<open>
  The table is a list of rows. \<open>query_by_ids\<close> is
  \<^verbatim>\<open>db.query(Component).filter(Component.id.in_(component_ids)).all()\<close>; the rows come
  back in table order.
\<close>

definition query_by_ids :: "'a Component_scheme list \<Rightarrow> int list \<Rightarrow> 'a Component_scheme list" where
  "query_by_ids db component_ids = filter (\<lambda>c. comp_id c \<in> set component_ids) db"

text \<open>
  \<^verbatim>\<open>{comp.component_type.value: comp for comp in components}\<close>: a later row of a
  category replaces an earlier one.
\<close>

definition build_comp_map ::
    "'a Component_scheme list \<Rightarrow> (string \<rightharpoonup> 'a Component_scheme)" where
  "build_comp_map components =
     fold (\<lambda>c m. m(type_value (component_type c) \<mapsto> c)) components Map.empty"

text \<open>\<^verbatim>\<open>comp.tdp_watts or 0\<close>.\<close>

definition tdp_or_0 :: "'a Component_scheme \<Rightarrow> int" where
  "tdp_or_0 c = (case tdp_watts c of None \<Rightarrow> 0 | Some w \<Rightarrow> w)"

text \<open>
  The description of an issue is an f-string; each constructor stands for one of the
  four templates and carries the values formatted into it.
\<close>

datatype description =
    SocketText string string
  | RamTypeText string string
  | PsuText pyval real
  | FormFactorText string string

record issue =
  severity :: string
  issue_type :: string
  description :: description

text \<open>The two local variables \<^verbatim>\<open>issues\<close> and \<^verbatim>\<open>compatible\<close> of the checker.\<close>

record check_state =
  st_issues :: "issue list"
  st_compatible :: bool

record compat_result =
  compatible :: bool
  compatibility_score :: int
  issues :: "issue list"
  total_tdp_watts :: int

definition check_socket ::
    "(string \<rightharpoonup> 'a Component_scheme) \<Rightarrow> check_state \<Rightarrow> check_state" where
  "check_socket comp_map st =
     (case (comp_map ''cpu'', comp_map ''motherboard'') of
        (Some cpu, Some mobo) \<Rightarrow>
          if truthy_str (socket_type cpu) \<and> truthy_str (socket_type mobo) then
            if socket_type cpu \<noteq> socket_type mobo then
              st\<lparr>st_issues := st_issues st @
                    [\<lparr>severity = ''critical'', issue_type = ''socket_mismatch'',
                      description = SocketText (the (socket_type cpu)) (the (socket_type mobo))\<rparr>],
                 st_compatible := False\<rparr>
            else st
          else st
      | _ \<Rightarrow> st)"

definition check_ram ::
    "(string \<rightharpoonup> 'a Component_scheme) \<Rightarrow> check_state \<Rightarrow> check_state" where
  "check_ram comp_map st =
     (case (comp_map ''ram'', comp_map ''motherboard'') of
        (Some ram, Some mobo) \<Rightarrow>
          if truthy_str (ram_type ram) \<and> truthy_str (ram_type mobo) then
            if ram_type ram \<noteq> ram_type mobo then
              st\<lparr>st_issues := st_issues st @
                    [\<lparr>severity = ''critical'', issue_type = ''ram_type_mismatch'',
                      description = RamTypeText (the (ram_type ram)) (the (ram_type mobo))\<rparr>],
                 st_compatible := False\<rparr>
            else st
          else st
      | _ \<Rightarrow> st)"

text \<open>
  The sum of the power check: \<^verbatim>\<open>comp.tdp_watts or 0\<close> over the rows whose category is
  not PSU.
\<close>

definition non_psu_tdp :: "'a Component_scheme list \<Rightarrow> int" where
  "non_psu_tdp components =
     sum_list (map tdp_or_0 (filter (\<lambda>c. component_type c \<noteq> PSU) components))"

text \<open>\<^verbatim>\<open>psu.specs.get("wattage", 0) if psu.specs else 0\<close>.\<close>

definition psu_wattage :: "'a Component_scheme \<Rightarrow> pyval" where
  "psu_wattage psu =
     (case specs psu of
        None \<Rightarrow> PInt 0
      | Some d \<Rightarrow> if d = [] then PInt 0 else get_or d ''wattage'' (PInt 0))"

definition check_psu ::
    "'a Component_scheme list \<Rightarrow> (string \<rightharpoonup> 'a Component_scheme) \<Rightarrow> check_state
      \<Rightarrow> error + check_state" where
  "check_psu components comp_map st =
     (case comp_map ''psu'' of
        None \<Rightarrow> Inr st
      | Some psu \<Rightarrow>
          let total_tdp = non_psu_tdp components;
              recommended_wattage = real_of_int total_tdp * 1.3
          in (case as_number (psu_wattage psu) of
                Inl e \<Rightarrow> Inl e
              | Inr w \<Rightarrow>
                  if w < recommended_wattage then
                    Inr (st\<lparr>st_issues := st_issues st @
                          [\<lparr>severity = ''warning'', issue_type = ''insufficient_psu'',
                            description = PsuText (psu_wattage psu) recommended_wattage\<rparr>]\<rparr>)
                  else Inr st))"

definition check_form_factor ::
    "(string \<rightharpoonup> 'a Component_scheme) \<Rightarrow> check_state \<Rightarrow> check_state" where
  "check_form_factor comp_map st =
     (case (comp_map ''motherboard'', comp_map ''case'') of
        (Some mobo, Some case_c) \<Rightarrow>
          if truthy_str (form_factor mobo) \<and> truthy_str (form_factor case_c) then
            if \<not> contains (the (form_factor mobo)) (the (form_factor case_c)) then
              st\<lparr>st_issues := st_issues st @
                    [\<lparr>severity = ''critical'', issue_type = ''form_factor_mismatch'',
                      description =
                        FormFactorText (the (form_factor mobo)) (the (form_factor case_c))\<rparr>],
                 st_compatible := False\<rparr>
            else st
          else st
      | _ \<Rightarrow> st)"

text \<open>
  \<open>Inl NotFound\<close> is the return value \<^verbatim>\<open>"Error: Some component IDs not found"\<close>;
  \<open>Inl TypeError\<close> is the \<^verbatim>\<open>"Error: ..."\<close> string of the exception handler;
  \<open>Inr r\<close> is the dictionary the tool prints.
\<close>

definition check_compatibility ::
    "'a Component_scheme list \<Rightarrow> int list \<Rightarrow> error + compat_result" where
  "check_compatibility db component_ids =
     (let components = query_by_ids db component_ids
      in if length components \<noteq> length component_ids then Inl NotFound
         else
           let comp_map = build_comp_map components;
               st0 = \<lparr>st_issues = [], st_compatible = True\<rparr>;
               st1 = check_socket comp_map st0;
               st2 = check_ram comp_map st1
           in case check_psu components comp_map st2 of
                Inl e \<Rightarrow> Inl e
              | Inr st3 \<Rightarrow>
                  let st4 = check_form_factor comp_map st3
                  in Inr \<lparr>compatible = st_compatible st4,
                          compatibility_score =
                            (if st_compatible st4 then 100
                             else if st_issues st4 \<noteq> [] then 50 else 100),
                          issues = st_issues st4,
                          total_tdp_watts = sum_list (map tdp_or_0 components)\<rparr>)"

text \<open>\<^verbatim>\<open>score or 0\<close> on a nullable score column.\<close>

definition score_or_0 :: "real option \<Rightarrow> real" where
  "score_or_0 s = (case s of None \<Rightarrow> 0 | Some x \<Rightarrow> x)"

text \<open>\<^verbatim>\<open>ram.specs.get("capacity_gb", 0) if ram.specs else 0\<close>.\<close>

definition ram_capacity_of :: "'a Component_scheme \<Rightarrow> pyval" where
  "ram_capacity_of ram =
     (case specs ram of
        None \<Rightarrow> PInt 0
      | Some d \<Rightarrow> if d = [] then PInt 0 else get_or d ''capacity_gb'' (PInt 0))"

text \<open>
  \<^verbatim>\<open>scores["gaming"] * 0.33 + scores["productivity"] * 0.33 + scores["ai_ml"] * 0.34\<close>.
\<close>

definition weighted_overall :: "real \<Rightarrow> real \<Rightarrow> real \<Rightarrow> real" where
  "weighted_overall g p a = g * 0.33 + p * 0.33 + a * 0.34"

record perf_result =
  use_case :: string
  use_case_score :: real
  all_scores :: "(string \<times> real) list"
  rating :: string

text \<open>
  The build scorer. The dictionary \<^verbatim>\<open>scores\<close> is updated in place by the source; here
  its three accumulated entries are the values \<open>g1\<close>, \<open>a1\<close>, \<open>p1\<close> (after the GPU),
  \<open>g2\<close>, \<open>a2\<close>, \<open>p2\<close> (after the CPU) and \<open>p3\<close>, \<open>a3\<close> (after the RAM). There is no
  test on the number of rows found.
\<close>

definition rate_performance ::
    "'a Component_scheme list \<Rightarrow> int list \<Rightarrow> string \<Rightarrow> error + perf_result" where
  "rate_performance db component_ids uc =
     (let components = query_by_ids db component_ids;
          comp_map = build_comp_map components;
          (g1, a1, p1) =
            (case comp_map ''gpu'' of
               None \<Rightarrow> (0, 0, 0)
             | Some gpu \<Rightarrow>
                 (0 + score_or_0 (gaming_score gpu) * 0.6,
                  0 + score_or_0 (ai_score gpu) * 0.7,
                  0 + score_or_0 (productivity_score gpu) * 0.3));
          (g2, a2, p2) =
            (case comp_map ''cpu'' of
               None \<Rightarrow> (g1, a1, p1)
             | Some cpu \<Rightarrow>
                 (g1 + score_or_0 (gaming_score cpu) * 0.3,
                  a1 + score_or_0 (ai_score cpu) * 0.2,
                  p1 + score_or_0 (productivity_score cpu) * 0.5))
      in case (case comp_map ''ram'' of
                 None \<Rightarrow> Inr (p2, a2)
               | Some ram \<Rightarrow>
                   (case true_div (ram_capacity_of ram) 32 of
                      Inl e \<Rightarrow> Inl e
                    | Inr q \<Rightarrow>
                        let ram_score = min (q * 100) 100
                        in Inr (p2 + ram_score * 0.2, a2 + ram_score * 0.1))) of
           Inl e \<Rightarrow> Inl e
         | Inr (p3, a3) \<Rightarrow>
             let overall_v = weighted_overall g2 p3 a3;
                 scores = [(''gaming'', g2), (''productivity'', p3), (''ai_ml'', a3),
                           (''overall'', overall_v)];
                 use_case_score_v = (case map_of scores uc of None \<Rightarrow> overall_v | Some v \<Rightarrow> v)
             in Inr \<lparr>use_case = uc,
                     use_case_score = use_case_score_v,
                     all_scores = scores,
                     rating = (if use_case_score_v \<ge> 80 then ''excellent''
                               else if use_case_score_v \<ge> 60 then ''good'' else ''fair'')\<rparr>)"

section \<open>Benchmark scorer (app/utils/benchmark\_calculator.py)\<close>

text \<open>
  \<^verbatim>\<open>str.lower()\<close> on ASCII text: the letters A to Z move to a to z, every other
  character stays.
\<close>

definition lower_char :: "char \<Rightarrow> char" where
  "lower_char c =
     (case map_of (zip ''ABCDEFGHIJKLMNOPQRSTUVWXYZ'' ''abcdefghijklmnopqrstuvwxyz'') c of
        None \<Rightarrow> c
      | Some l \<Rightarrow> l)"

definition lower :: "string \<Rightarrow> string" where
  "lower s = map lower_char s"

text \<open>
  The tier tables, in the order of the dictionary literals. An entry is
  (key, (base, gaming, productivity, ai)).
\<close>

type_synonym tier = "real \<times> real \<times> real \<times> real"

definition CPU_SCORES :: "(string \<times> tier) list" where
  "CPU_SCORES =
     [(''i9'', (90, 85, 95, 80)),
      (''i7'', (75, 80, 85, 70)),
      (''i5'', (60, 70, 70, 55)),
      (''i3'', (40, 50, 50, 35)),
      (''ryzen 9'', (92, 88, 98, 85)),
      (''ryzen 7'', (78, 82, 88, 75)),
      (''ryzen 5'', (65, 72, 75, 60)),
      (''ryzen 3'', (45, 55, 55, 40))]"

definition GPU_SCORES :: "(string \<times> tier) list" where
  "GPU_SCORES =
     [(''rtx 4090'', (100, 100, 95, 100)),
      (''rtx 4080'', (90, 95, 90, 95)),
      (''rtx 4070'', (75, 85, 75, 80)),
      (''rtx 4060'', (60, 70, 60, 65)),
      (''rtx 3090'', (95, 95, 90, 98)),
      (''rtx 3080'', (85, 90, 85, 90)),
      (''rtx 3070'', (70, 80, 70, 75)),
      (''rtx 3060'', (55, 65, 55, 60)),
      (''gtx 1660'', (40, 50, 35, 30)),
      (''gtx 1650'', (30, 40, 25, 20)),
      (''rx 7900'', (88, 92, 85, 75)),
      (''rx 7800'', (75, 82, 70, 60)),
      (''rx 7700'', (65, 72, 60, 50)),
      (''rx 6600'', (50, 60, 45, 35)),
      (''rx 6500'', (35, 45, 30, 25))]"

text \<open>
  \<^verbatim>\<open>for key, scores in TABLE.items(): if key in name_lower: ...; break\<close>: the first
  key that occurs in the name.
\<close>

fun find_tier :: "(string \<times> tier) list \<Rightarrow> string \<Rightarrow> tier option" where
  "find_tier [] name_lower = None"
| "find_tier ((key, scores) # rest) name_lower =
     (if contains key name_lower then Some scores else find_tier rest name_lower)"

text \<open>
  The test \<^verbatim>\<open>sub in x\<close> with a string on the left: a substring test on a string,
  membership on a list, \<^verbatim>\<open>TypeError\<close> on a number.
\<close>

fun py_in :: "string \<Rightarrow> pyval \<Rightarrow> error + bool" where
  "py_in sub (PStr s) = Inr (contains sub s)"
| "py_in sub (PList xs) = Inr (sub \<in> set xs)"
| "py_in sub (PInt i) = Inl TypeError"
| "py_in sub (PFloat x) = Inl TypeError"

text \<open>The dictionary every calculator returns, with its values capped at 100.\<close>

type_synonym score_dict = "(string \<times> real) list"

definition capped :: "real \<Rightarrow> real \<Rightarrow> real \<Rightarrow> real \<Rightarrow> score_dict" where
  "capped base gaming productivity ai =
     [(''benchmark_score'', min base 100),
      (''gaming_score'', min gaming 100),
      (''productivity_score'', min productivity 100),
      (''ai_score'', min ai 100)]"

definition calculate_cpu_scores :: "string \<Rightarrow> dict \<Rightarrow> error + score_dict" where
  "calculate_cpu_scores nm sp =
     (let name_lower = lower nm;
          (base, gaming, productivity, ai) =
            (case find_tier CPU_SCORES name_lower of
               None \<Rightarrow> (50, 50, 50, 45)
             | Some t \<Rightarrow> t);
          cores_v = get_or sp ''cores'' (PInt 0);
          clock_v = get_or sp ''base_clock_ghz'' (PInt 0)
      in case as_number cores_v of
           Inl e \<Rightarrow> Inl e
         | Inr cores \<Rightarrow>
             (case (if cores > 0 then as_float cores_v else Inr cores) of
                Inl e \<Rightarrow> Inl e
              | Inr cores_f \<Rightarrow>
                  (let productivity1 = (if cores > 0 then productivity + min (cores * 2) 20
                                        else productivity);
                       ai1 = (if cores > 0 then ai + min (cores_f * 1.5) 15 else ai)
                   in case as_number clock_v of
                        Inl e \<Rightarrow> Inl e
                      | Inr clock \<Rightarrow>
                          (case (if clock > 0 then as_float clock_v else Inr clock) of
                             Inl e \<Rightarrow> Inl e
                           | Inr clock_f \<Rightarrow>
                               (let gaming1 =
                                      (if clock > 0 then gaming + min ((clock_f - 3.0) * 10) 15
                                       else gaming)
                                in Inr (capped base gaming1 productivity1 ai1))))))"

definition calculate_gpu_scores :: "string \<Rightarrow> dict \<Rightarrow> error + score_dict" where
  "calculate_gpu_scores nm sp =
     (let name_lower = lower nm;
          (base, gaming, productivity, ai) =
            (case find_tier GPU_SCORES name_lower of
               None \<Rightarrow> (40, 45, 40, 35)
             | Some t \<Rightarrow> t)
      in case as_number (get_or sp ''vram_gb'' (PInt 0)) of
           Inl e \<Rightarrow> Inl e
         | Inr vram \<Rightarrow>
             (let ai1 = (if vram \<ge> 24 then ai + 20
                         else if vram \<ge> 16 then ai + 15
                         else if vram \<ge> 12 then ai + 10
                         else if vram \<ge> 8 then ai + 5
                         else ai);
                  gddr6x = (dict_get sp ''memory_type'' = Some (PStr ''GDDR6X''));
                  gaming1 = (if gddr6x then gaming + 5 else gaming);
                  ai2 = (if gddr6x then ai1 + 5 else ai1)
              in Inr (capped base gaming1 productivity ai2)))"

definition calculate_ram_scores :: "string \<Rightarrow> dict \<Rightarrow> error + score_dict" where
  "calculate_ram_scores nm sp =
     (let capacity_v = get_or sp ''capacity_gb'' (PInt 0);
          ram_type_v = get_or sp ''ram_type'' (PStr '''')
      in case true_div capacity_v 32 of
           Inl e \<Rightarrow> Inl e
         | Inr q32 \<Rightarrow>
             (let base0 = min (q32 * 100) 100
              in case (if ram_type_v = PStr ''DDR5'' then Inr (base0 + 10)
                       else if ram_type_v = PStr ''DDR4'' then
                         (case as_number (get_or sp ''ram_speed'' (PInt 0)) of
                            Inl e \<Rightarrow> Inl e
                          | Inr speed \<Rightarrow> Inr (if speed \<ge> 3600 then base0 + 5 else base0))
                       else Inr base0) of
                   Inl e \<Rightarrow> Inl e
                 | Inr base \<Rightarrow>
                     (case true_div capacity_v 16 of
                        Inl e \<Rightarrow> Inl e
                      | Inr q16 \<Rightarrow>
                          (let productivity = min (q16 * 100) 100;
                               ai = min (q32 * 100) 100
                           in Inr (capped base (base * 0.3) productivity ai)))))"

text \<open>The base score of a storage type: NVMe, else SSD, else anything.\<close>

definition storage_type_score :: "pyval \<Rightarrow> error + real" where
  "storage_type_score storage_type =
     (case py_in ''NVMe'' storage_type of
        Inl e \<Rightarrow> Inl e
      | Inr True \<Rightarrow> Inr 80
      | Inr False \<Rightarrow>
          (case py_in ''SSD'' storage_type of
             Inl e \<Rightarrow> Inl e
           | Inr True \<Rightarrow> Inr 60
           | Inr False \<Rightarrow> Inr 40))"

definition calculate_storage_scores :: "string \<Rightarrow> dict \<Rightarrow> error + score_dict" where
  "calculate_storage_scores nm sp =
     (case storage_type_score (get_or sp ''type'' (PStr '''')) of
        Inl e \<Rightarrow> Inl e
      | Inr base0 \<Rightarrow>
          (case as_number (get_or sp ''capacity_gb'' (PInt 0)) of
             Inl e \<Rightarrow> Inl e
           | Inr capacity \<Rightarrow>
               (let base = (if capacity \<ge> 2000 then base0 + 10
                            else if capacity \<ge> 1000 then base0 + 5
                            else base0)
                in Inr (capped base (base * 0.8) base (base * 0.7)))))"

text \<open>The efficiency bonus: the first of the four names that occurs in the value.\<close>

definition efficiency_bonus :: "pyval \<Rightarrow> error + real" where
  "efficiency_bonus efficiency =
     (case py_in ''Titanium'' efficiency of
        Inl e \<Rightarrow> Inl e
      | Inr True \<Rightarrow> Inr 10
      | Inr False \<Rightarrow>
          (case py_in ''Platinum'' efficiency of
             Inl e \<Rightarrow> Inl e
           | Inr True \<Rightarrow> Inr 8
           | Inr False \<Rightarrow>
               (case py_in ''Gold'' efficiency of
                  Inl e \<Rightarrow> Inl e
                | Inr True \<Rightarrow> Inr 5
                | Inr False \<Rightarrow>
                    (case py_in ''Bronze'' efficiency of
                       Inl e \<Rightarrow> Inl e
                     | Inr True \<Rightarrow> Inr 2
                     | Inr False \<Rightarrow> Inr 0))))"

definition calculate_psu_scores :: "string \<Rightarrow> dict \<Rightarrow> error + score_dict" where
  "calculate_psu_scores nm sp =
     (case as_number (get_or sp ''wattage'' (PInt 0)) of
        Inl e \<Rightarrow> Inl e
      | Inr wattage \<Rightarrow>
          (let base0 = (if wattage \<ge> 1000 then 90
                        else if wattage \<ge> 750 then 80
                        else if wattage \<ge> 650 then 70
                        else if wattage \<ge> 550 then 60
                        else 50)
           in case efficiency_bonus (get_or sp ''efficiency'' (PStr '''')) of
                Inl e \<Rightarrow> Inl e
              | Inr bonus \<Rightarrow>
                  (let base = base0 + bonus in Inr (capped base base base base))))"

text \<open>The dispatch on the lowercased category; any other category gets four times 50.\<close>

definition calculate_benchmark_scores :: "string \<Rightarrow> string \<Rightarrow> dict \<Rightarrow> error + score_dict" where
  "calculate_benchmark_scores ct nm sp =
     (let t = lower ct
      in if t = ''cpu'' then calculate_cpu_scores nm sp
         else if t = ''gpu'' then calculate_gpu_scores nm sp
         else if t = ''ram'' then calculate_ram_scores nm sp
         else if t = ''storage'' then calculate_storage_scores nm sp
         else if t = ''psu'' then calculate_psu_scores nm sp
         else Inr [(''benchmark_score'', 50), (''gaming_score'', 50),
                   (''productivity_score'', 50), (''ai_score'', 50)])"

section \<open>Regular expressions (the subset of Python's re the sources use)\<close>

text \<open>
  Text is ASCII. Whitespace is what \<^verbatim>\<open>\s\<close>, \<^verbatim>\<open>str.split()\<close> and \<^verbatim>\<open>str.strip()\<close>
  accept below code point 128.
\<close>

definition whitespace :: string where
  "whitespace = [CHR 0x09, CHR 0x0A, CHR 0x0B, CHR 0x0C, CHR 0x0D,
                 CHR 0x1C, CHR 0x1D, CHR 0x1E, CHR 0x1F, CHR 0x20]"

definition digits :: string where
  "digits = ''0123456789''"

definition upper_letters :: string where
  "upper_letters = ''ABCDEFGHIJKLMNOPQRSTUVWXYZ''"

definition lower_letters :: string where
  "lower_letters = ''abcdefghijklmnopqrstuvwxyz''"

definition upper_char :: "char \<Rightarrow> char" where
  "upper_char c =
     (case map_of (zip ''abcdefghijklmnopqrstuvwxyz'' ''ABCDEFGHIJKLMNOPQRSTUVWXYZ'') c of
        None \<Rightarrow> c
      | Some u \<Rightarrow> u)"

text \<open>
  A pattern: a literal character, a character class (the list of its members),
  concatenation, ordered alternation, the greedy star, the capturing group 1 and the empty
  pattern. \<^verbatim>\<open>r+\<close> and \<^verbatim>\<open>r?\<close> are derived.
\<close>

datatype regex =
    Chr char
  | Cls string
  | Seq regex regex
  | Alt regex regex
  | Star regex
  | Grp regex
  | Eps

definition Plus :: "regex \<Rightarrow> regex" where
  "Plus r = Seq r (Star r)"

definition Opt :: "regex \<Rightarrow> regex" where
  "Opt r = Alt r Eps"

fun Lit :: "string \<Rightarrow> regex" where
  "Lit [] = Eps"
| "Lit (c # cs) = Seq (Chr c) (Lit cs)"

fun Alts :: "regex list \<Rightarrow> regex" where
  "Alts [] = Cls []"
| "Alts [r] = r"
| "Alts (r # rs) = Alt r (Alts rs)"

text \<open>One character against a literal or a class; \<open>ic\<close> is the flag \<^verbatim>\<open>re.IGNORECASE\<close>.\<close>

definition chr_matches :: "bool \<Rightarrow> char \<Rightarrow> char \<Rightarrow> bool" where
  "chr_matches ic c x = (if ic then lower_char x = lower_char c else x = c)"

definition cls_matches :: "bool \<Rightarrow> string \<Rightarrow> char \<Rightarrow> bool" where
  "cls_matches ic cls x =
     (if ic then x \<in> set cls \<or> lower_char x \<in> set cls \<or> upper_char x \<in> set cls
      else x \<in> set cls)"

text \<open>
  \<open>rmatch ic r s\<close> lists the ways \<open>r\<close> matches a prefix of \<open>s\<close>, in the order a
  backtracking matcher tries them: each is the text of group 1, if the group took part,
  and the rest of the input. An iteration of a star that consumes nothing is not
  repeated.
\<close>

fun rmatch :: "bool \<Rightarrow> regex \<Rightarrow> string \<Rightarrow> (string option \<times> string) list" where
  "rmatch ic (Chr c) s =
     (case s of [] \<Rightarrow> [] | x # xs \<Rightarrow> if chr_matches ic c x then [(None, xs)] else [])"
| "rmatch ic (Cls cls) s =
     (case s of [] \<Rightarrow> [] | x # xs \<Rightarrow> if cls_matches ic cls x then [(None, xs)] else [])"
| "rmatch ic (Seq r1 r2) s =
     concat (map (\<lambda>(g1, s1).
               map (\<lambda>(g2, s2). (case g2 of None \<Rightarrow> g1 | Some t \<Rightarrow> Some t, s2))
                   (rmatch ic r2 s1))
             (rmatch ic r1 s))"
| "rmatch ic (Alt r1 r2) s = rmatch ic r1 s @ rmatch ic r2 s"
| "rmatch ic (Star r) s =
     concat (map (\<lambda>(g1, s1).
               if length s1 < length s
               then map (\<lambda>(g2, s2). (case g2 of None \<Rightarrow> g1 | Some t \<Rightarrow> Some t, s2))
                        (rmatch ic (Star r) s1)
               else [])
             (rmatch ic r s))
     @ [(None, s)]"
| "rmatch ic (Grp r) s =
     map (\<lambda>(g, s1). (Some (take (length s - length s1) s), s1)) (rmatch ic r s)"
| "rmatch ic Eps s = [(None, s)]"

text \<open>
  \<^verbatim>\<open>re.search\<close>: the first way to match at the leftmost position that has one. The
  result is the text of group 1 (\<open>None\<close> inside when the group took no part).
\<close>

fun search :: "bool \<Rightarrow> regex \<Rightarrow> string \<Rightarrow> string option option" where
  "search ic r [] = (case rmatch ic r [] of [] \<Rightarrow> None | (g, rest) # others \<Rightarrow> Some g)"
| "search ic r (c # cs) =
     (case rmatch ic r (c # cs) of [] \<Rightarrow> search ic r cs | (g, rest) # others \<Rightarrow> Some g)"

text \<open>
  \<^verbatim>\<open>match.group(1)\<close> after \<^verbatim>\<open>if match:\<close>. In every pattern below group 1 is
  mandatory, so a match always has it.
\<close>

definition search_group :: "bool \<Rightarrow> regex \<Rightarrow> string \<Rightarrow> string option" where
  "search_group ic r s = (case search ic r s of Some (Some g) \<Rightarrow> Some g | _ \<Rightarrow> None)"

text \<open>
  \<^verbatim>\<open>int(text)\<close> on a run of decimal digits, of any length (no limit on the number of
  digits is modelled).
\<close>

definition digit_value :: "char \<Rightarrow> int" where
  "digit_value c = (case map_of (zip ''0123456789'' [0, 1, 2, 3, 4, 5, 6, 7, 8, 9]) c of
                      None \<Rightarrow> 0 | Some v \<Rightarrow> v)"

definition int_of_digits :: "string \<Rightarrow> int" where
  "int_of_digits s = foldl (\<lambda>acc c. acc * 10 + digit_value c) 0 s"

text \<open>\<^verbatim>\<open>str.strip()\<close> and \<^verbatim>\<open>str.split()\<close>.\<close>

definition strip :: "string \<Rightarrow> string" where
  "strip s = rev (dropWhile (\<lambda>c. c \<in> set whitespace) (rev (dropWhile (\<lambda>c. c \<in> set whitespace) s)))"

fun split_ws :: "string \<Rightarrow> string \<Rightarrow> string list" where
  "split_ws cur [] = (if cur = [] then [] else [cur])"
| "split_ws cur (c # cs) =
     (if c \<in> set whitespace then (if cur = [] then split_ws [] cs else cur # split_ws [] cs)
      else split_ws (cur @ [c]) cs)"

definition split :: "string \<Rightarrow> string list" where
  "split s = split_ws [] s"

section \<open>Name normalizer (app/utils/name\_parser.py)\<close>

text \<open>
  The dictionary \<^verbatim>\<open>MANUFACTURERS\<close> in iteration order: a key written twice in the
  literal keeps its first position (and here every repeat carries the same value).
\<close>

definition MANUFACTURERS :: "(string \<times> string) list" where
  "MANUFACTURERS =
     [(''intel'', ''Intel''), (''amd'', ''AMD''), (''ryzen'', ''AMD''), (''core'', ''Intel''),
      (''pentium'', ''Intel''), (''celeron'', ''Intel''), (''threadripper'', ''AMD''),
      (''epyc'', ''AMD''),
      (''nvidia'', ''NVIDIA''), (''geforce'', ''NVIDIA''), (''rtx'', ''NVIDIA''),
      (''gtx'', ''NVIDIA''), (''gt'', ''NVIDIA''), (''radeon'', ''AMD''), (''rx'', ''AMD''),
      (''asus'', ''ASUS''), (''msi'', ''MSI''), (''gigabyte'', ''Gigabyte''),
      (''asrock'', ''ASRock''), (''evga'', ''EVGA''), (''biostar'', ''Biostar''),
      (''corsair'', ''Corsair''), (''g.skill'', ''G.Skill''), (''kingston'', ''Kingston''),
      (''crucial'', ''Crucial''), (''samsung'', ''Samsung''), (''hyperx'', ''HyperX''),
      (''team'', ''Team Group''), (''patriot'', ''Patriot''),
      (''western digital'', ''Western Digital''), (''wd'', ''Western Digital''),
      (''seagate'', ''Seagate''), (''sandisk'', ''SanDisk''), (''adata'', ''ADATA''),
      (''seasonic'', ''Seasonic''), (''be quiet'', ''be quiet!''),
      (''cooler master'', ''Cooler Master''), (''thermaltake'', ''Thermaltake''),
      (''antec'', ''Antec''),
      (''nzxt'', ''NZXT''), (''fractal design'', ''Fractal Design''), (''lian li'', ''Lian Li''),
      (''phanteks'', ''Phanteks'')]"

text \<open>The first key of a table that occurs in the text, with its value.\<close>

fun first_key_in :: "(string \<times> 'v) list \<Rightarrow> string \<Rightarrow> 'v option" where
  "first_key_in [] text = None"
| "first_key_in ((key, v) # rest) text =
     (if contains key text then Some v else first_key_in rest text)"

text \<open>
  \<^verbatim>\<open>(?:Intel|AMD|Ryzen|Core|Pentium|Celeron|Threadripper|EPYC)\s+([A-Za-z0-9\-\s]+)\<close>
\<close>

definition cpu_pattern :: regex where
  "cpu_pattern =
     Seq (Alts (map Lit [''Intel'', ''AMD'', ''Ryzen'', ''Core'', ''Pentium'', ''Celeron'',
                         ''Threadripper'', ''EPYC'']))
       (Seq (Plus (Cls whitespace))
         (Grp (Plus (Cls (upper_letters @ lower_letters @ digits @ ''-'' @ whitespace)))))"

text \<open>\<^verbatim>\<open>(?:RTX|GTX|GT|RX|Radeon|GeForce)\s*([0-9]+(?:\s*[A-Z]+)?)\<close>\<close>

definition gpu_pattern :: regex where
  "gpu_pattern =
     Seq (Alts (map Lit [''RTX'', ''GTX'', ''GT'', ''RX'', ''Radeon'', ''GeForce'']))
       (Seq (Star (Cls whitespace))
         (Grp (Seq (Plus (Cls digits))
                (Opt (Seq (Star (Cls whitespace)) (Plus (Cls upper_letters)))))))"

text \<open>\<^verbatim>\<open>([A-Z][0-9]+[A-Z]?[0-9]*)\<close>\<close>

definition mobo_pattern :: regex where
  "mobo_pattern =
     Grp (Seq (Cls upper_letters)
           (Seq (Plus (Cls digits))
             (Seq (Opt (Cls upper_letters)) (Star (Cls digits)))))"

text \<open>\<^verbatim>\<open>DDR[45][\-\s]*([0-9]+)\<close>\<close>

definition ram_pattern :: regex where
  "ram_pattern =
     Seq (Lit ''DDR'')
       (Seq (Cls ''45'')
         (Seq (Star (Cls (''-'' @ whitespace))) (Grp (Plus (Cls digits)))))"

text \<open>\<^verbatim>\<open>([A-Z0-9]+\s*[A-Z0-9]+)\<close>\<close>

definition storage_pattern :: regex where
  "storage_pattern =
     Grp (Seq (Plus (Cls (upper_letters @ digits)))
           (Seq (Star (Cls whitespace)) (Plus (Cls (upper_letters @ digits)))))"

text \<open>\<^verbatim>\<open>' '.join(words)\<close>\<close>

fun join_space :: "string list \<Rightarrow> string" where
  "join_space [] = []"
| "join_space [w] = w"
| "join_space (w # ws) = w @ '' '' @ join_space ws"

record name_data =
  nd_manufacturer :: "string option"
  nd_model :: "string option"

text \<open>The model found by the pattern of the category, before the fallback.\<close>

definition pattern_model :: "string \<Rightarrow> string \<Rightarrow> string option" where
  "pattern_model nm ct =
     (if ct = ''cpu'' then map_option strip (search_group True cpu_pattern nm)
      else if ct = ''gpu'' then map_option strip (search_group True gpu_pattern nm)
      else if ct = ''motherboard'' then search_group False mobo_pattern nm
      else if ct = ''ram'' then
        map_option (\<lambda>g. ''DDR'' @ (if contains ''ddr5'' (lower nm) then ''5'' else ''4'') @ ''-'' @ g)
                   (search_group True ram_pattern nm)
      else if ct = ''storage'' then map_option strip (search_group False storage_pattern nm)
      else None)"

definition parse_component_name :: "string \<Rightarrow> string \<Rightarrow> name_data" where
  "parse_component_name nm ct =
     (if nm = [] then \<lparr>nd_manufacturer = None, nd_model = None\<rparr>
      else
        let name_lower = lower nm;
            manufacturer_v = first_key_in MANUFACTURERS name_lower;
            model0 = pattern_model nm ct;
            model1 =
              (if truthy_str model0 then model0
               else
                 let words = split nm;
                     filtered = filter (\<lambda>w. lower w \<notin> set [''new'', ''used'', ''occasion'',
                                                              ''dzd'', ''da'', ''algeria'']) words
                 in if length filtered > 1 then Some (join_space (take 2 (drop 1 filtered)))
                    else model0)
        in \<lparr>nd_manufacturer = manufacturer_v,
            nd_model = (if truthy_str model1 then model1 else Some (take 100 nm))\<rparr>)"

section \<open>Specification extractor (app/utils/spec\_extractor.py)\<close>

text \<open>\<^verbatim>\<open>if value is found: specs[key] = value\<close>\<close>

definition set_if :: "string \<Rightarrow> pyval option \<Rightarrow> dict \<Rightarrow> dict" where
  "set_if k v d = (case v of None \<Rightarrow> d | Some x \<Rightarrow> dict_set k x d)"

text \<open>The text every extractor probes: \<^verbatim>\<open>f"{name} {description}".lower()\<close>.\<close>

definition probe_text :: "string \<Rightarrow> string \<Rightarrow> string" where
  "probe_text nm description_v = lower (nm @ '' '' @ description_v)"

text \<open>\<^verbatim>\<open>(\d+)\s*\<close> followed by a literal tail, and \<^verbatim>\<open>int(match.group(1))\<close>.\<close>

definition number_before :: "regex \<Rightarrow> regex" where
  "number_before tail = Seq (Grp (Plus (Cls digits))) (Seq (Star (Cls whitespace)) tail)"

definition search_int :: "regex \<Rightarrow> string \<Rightarrow> pyval option" where
  "search_int r text = map_option (\<lambda>g. PInt (int_of_digits g)) (search_group False r text)"

text \<open>\<^verbatim>\<open>(\d+)\s*w(?:atts?)?\<close>, used for the TDP and for the wattage.\<close>

definition watts_pattern :: regex where
  "watts_pattern =
     number_before (Seq (Chr CHR ''w'') (Opt (Seq (Lit ''att'') (Opt (Chr CHR ''s'')))))"

text \<open>\<^verbatim>\<open>(\d+)\s*mhz\<close>\<close>

definition mhz_pattern :: regex where
  "mhz_pattern = number_before (Lit ''mhz'')"

text \<open>
  \<^verbatim>\<open>(\d+\.?\d*)\s*ghz\<close> and \<^verbatim>\<open>float(match.group(1))\<close>. A decimal beyond the
  float range, which Python reads as infinity, is the large real here; the scorer's only
  use of the clock, \<^verbatim>\<open>min((clock - 3.0) * 10, 15)\<close>, is 15 on both.
\<close>

definition ghz_pattern :: regex where
  "ghz_pattern =
     Seq (Grp (Seq (Plus (Cls digits)) (Seq (Opt (Chr CHR ''.'')) (Star (Cls digits)))))
       (Seq (Star (Cls whitespace)) (Lit ''ghz''))"

definition float_of_decimal :: "string \<Rightarrow> real" where
  "float_of_decimal s =
     (let ip = takeWhile (\<lambda>c. c \<noteq> CHR ''.'') s;
          fp = drop 1 (dropWhile (\<lambda>c. c \<noteq> CHR ''.'') s)
      in real_of_int (int_of_digits ip) + real_of_int (int_of_digits fp) / 10 ^ length fp)"

text \<open>The RAM type test shared by the motherboard and the RAM extractor.\<close>

definition ddr_type :: "string \<Rightarrow> pyval option" where
  "ddr_type text =
     (if contains ''ddr5'' text then Some (PStr ''DDR5'')
      else if contains ''ddr4'' text then Some (PStr ''DDR4'')
      else if contains ''ddr3'' text then Some (PStr ''DDR3'')
      else None)"

definition extract_cpu_specs :: "string \<Rightarrow> string \<Rightarrow> dict" where
  "extract_cpu_specs nm description_v =
     (let text = probe_text nm description_v;
          sockets = [(''lga1700'', ''LGA1700''), (''lga1200'', ''LGA1200''),
                     (''lga1151'', ''LGA1151''), (''am5'', ''AM5''), (''am4'', ''AM4''),
                     (''am3'', ''AM3+'')];
          s1 = set_if ''socket_type'' (map_option PStr (first_key_in sockets text)) [];
          s2 = set_if ''cores''
                 (search_int (number_before (Alt (Lit ''core'') (Lit ''cores''))) text) s1;
          s3 = set_if ''threads''
                 (search_int (number_before (Alt (Lit ''thread'') (Lit ''threads''))) text) s2;
          s4 = set_if ''base_clock_ghz''
                 (map_option (\<lambda>g. PFloat (float_of_decimal g))
                    (search_group False ghz_pattern text)) s3
      in set_if ''tdp_watts'' (search_int watts_pattern text) s4)"

text \<open>
  The VRAM probes \<^verbatim>\<open>(\d+)\s*gb\s*vram\<close>, \<^verbatim>\<open>(\d+)\s*gb\s*gddr\<close> and
  \<^verbatim>\<open>(\d+)\s*go\<close>, tried in this order.
\<close>

definition vram_patterns :: "regex list" where
  "vram_patterns =
     [number_before (Seq (Lit ''gb'') (Seq (Star (Cls whitespace)) (Lit ''vram''))),
      number_before (Seq (Lit ''gb'') (Seq (Star (Cls whitespace)) (Lit ''gddr''))),
      number_before (Lit ''go'')]"

fun first_search_int :: "regex list \<Rightarrow> string \<Rightarrow> pyval option" where
  "first_search_int [] text = None"
| "first_search_int (r # rs) text =
     (case search_int r text of None \<Rightarrow> first_search_int rs text | Some v \<Rightarrow> Some v)"

text \<open>
  The memory type test of the GPU extractor, in the order of the source: GDDR6 (or
  \<^verbatim>\<open>gd6\<close>) first, then GDDR6X, then GDDR5.
\<close>

definition gpu_memory_type :: "string \<Rightarrow> pyval option" where
  "gpu_memory_type text =
     (if contains ''gddr6'' text \<or> contains ''gd6'' text then Some (PStr ''GDDR6'')
      else if contains ''gddr6x'' text then Some (PStr ''GDDR6X'')
      else if contains ''gddr5'' text then Some (PStr ''GDDR5'')
      else None)"

definition extract_gpu_specs :: "string \<Rightarrow> string \<Rightarrow> dict" where
  "extract_gpu_specs nm description_v =
     (let text = probe_text nm description_v;
          s1 = set_if ''vram_gb'' (first_search_int vram_patterns text) [];
          s2 = set_if ''memory_type'' (gpu_memory_type text) s1
      in set_if ''tdp_watts'' (search_int watts_pattern text) s2)"

definition extract_motherboard_specs :: "string \<Rightarrow> string \<Rightarrow> dict" where
  "extract_motherboard_specs nm description_v =
     (let text = probe_text nm description_v;
          sockets = [(''lga1700'', ''LGA1700''), (''lga1200'', ''LGA1200''),
                     (''lga1151'', ''LGA1151''), (''am5'', ''AM5''), (''am4'', ''AM4'')];
          chipsets = [(''b550'', ''B550''), (''x570'', ''X570''), (''b650'', ''B650''),
                      (''x670'', ''X670''), (''z690'', ''Z690''), (''z790'', ''Z790''),
                      (''b660'', ''B660''), (''h610'', ''H610'')];
          form_factors = [(''atx'', ''ATX''), (''matx'', ''mATX''), (''micro atx'', ''mATX''),
                          (''itx'', ''ITX''), (''mini itx'', ''ITX'')];
          s1 = set_if ''socket_type'' (map_option PStr (first_key_in sockets text)) [];
          s2 = set_if ''chipset'' (map_option PStr (first_key_in chipsets text)) s1;
          s3 = set_if ''ram_type'' (ddr_type text) s2;
          s4 = set_if ''ram_speed'' (search_int mhz_pattern text) s3
      in set_if ''form_factor'' (map_option PStr (first_key_in form_factors text)) s4)"

text \<open>\<^verbatim>\<open>ddr[45][\-\s]*(\d+)\<close>, the second probe for the RAM speed.\<close>

definition ddr_speed_pattern :: regex where
  "ddr_speed_pattern =
     Seq (Lit ''ddr'')
       (Seq (Cls ''45'') (Seq (Star (Cls (''-'' @ whitespace))) (Grp (Plus (Cls digits)))))"

definition extract_ram_specs :: "string \<Rightarrow> string \<Rightarrow> dict" where
  "extract_ram_specs nm description_v =
     (let text = probe_text nm description_v;
          s1 = set_if ''capacity_gb'' (search_int (number_before (Lit ''gb'')) text) [];
          s2 = set_if ''ram_type'' (ddr_type text) s1
      in set_if ''ram_speed''
           (case search_int mhz_pattern text of
              Some v \<Rightarrow> Some v
            | None \<Rightarrow> search_int ddr_speed_pattern text) s2)"

definition extract_storage_specs :: "string \<Rightarrow> string \<Rightarrow> dict" where
  "extract_storage_specs nm description_v =
     (let text = probe_text nm description_v;
          s1 = set_if ''capacity_gb''
                 (map_option (\<lambda>g. PInt (if contains ''tb'' text then int_of_digits g * 1000
                                          else int_of_digits g))
                    (search_group False (number_before (Alt (Lit ''gb'') (Lit ''tb''))) text)) [];
          s2 = set_if ''type''
                 (if contains ''nvme'' text \<or> contains ''m.2'' text \<or> contains ''pcie'' text
                  then Some (PStr ''NVMe SSD'')
                  else if contains ''ssd'' text then Some (PStr ''SSD'')
                  else if contains ''hdd'' text \<or> contains ''hard drive'' text
                  then Some (PStr ''HDD'')
                  else None) s1
      in set_if ''interface''
           (if contains ''sata'' text then Some (PStr ''SATA'')
            else if contains ''nvme'' text \<or> contains ''m.2'' text then Some (PStr ''NVMe'')
            else None) s2)"

definition extract_psu_specs :: "string \<Rightarrow> string \<Rightarrow> dict" where
  "extract_psu_specs nm description_v =
     (let text = probe_text nm description_v;
          s1 = set_if ''wattage'' (search_int watts_pattern text) []
      in set_if ''efficiency''
           (if contains ''80+ titanium'' text then Some (PStr ''80+ Titanium'')
            else if contains ''80+ platinum'' text then Some (PStr ''80+ Platinum'')
            else if contains ''80+ gold'' text then Some (PStr ''80+ Gold'')
            else if contains ''80+ bronze'' text then Some (PStr ''80+ Bronze'')
            else if contains ''80+ silver'' text then Some (PStr ''80+ Silver'')
            else if contains ''80+'' text then Some (PStr ''80+'')
            else None) s1)"

definition extract_case_specs :: "string \<Rightarrow> string \<Rightarrow> dict" where
  "extract_case_specs nm description_v =
     (let text = probe_text nm description_v;
          form_factors =
            (if contains ''atx'' text then [''ATX''] else [])
            @ (if contains ''matx'' text \<or> contains ''micro atx'' text then [''mATX''] else [])
            @ (if contains ''itx'' text \<or> contains ''mini itx'' text then [''ITX''] else [])
      in set_if ''form_factor'' (if form_factors \<noteq> [] then Some (PList form_factors) else None) [])"

text \<open>The dispatch on the lowercased category; any other category gets the empty map.\<close>

definition extract_specs :: "string \<Rightarrow> string \<Rightarrow> string \<Rightarrow> dict" where
  "extract_specs ct nm description_v =
     (let t = lower ct
      in if t = ''cpu'' then extract_cpu_specs nm description_v
         else if t = ''gpu'' then extract_gpu_specs nm description_v
         else if t = ''motherboard'' then extract_motherboard_specs nm description_v
         else if t = ''ram'' then extract_ram_specs nm description_v
         else if t = ''storage'' then extract_storage_specs nm description_v
         else if t = ''psu'' then extract_psu_specs nm description_v
         else if t = ''case'' then extract_case_specs nm description_v
         else [])"

section \<open>Catalog upsert (app/tasks/scraper\_tasks.py, scrape\_component\_type)\<close>

text \<open>
  The entries of a scraped listing (\<^verbatim>\<open>comp_data\<close>) that the update of an existing row
  reads. \<^verbatim>\<open>comp_data.get("description", "")\<close> is always a string.
\<close>

record listing =
  l_name :: string
  l_price_dzd :: real
  l_component_type :: string
  l_description :: string

text \<open>Truth value of a Python value: zero, the empty string and the empty list are false.\<close>

fun truthy :: "pyval \<Rightarrow> bool" where
  "truthy (PInt i) = (i \<noteq> 0)"
| "truthy (PFloat x) = (x \<noteq> 0)"
| "truthy (PStr s) = (s \<noteq> [])"
| "truthy (PList xs) = (xs \<noteq> [])"

text \<open>
  \<^verbatim>\<open>if value: existing.column = value\<close> on a string column and on an integer column. A
  value of another type than the column's cannot be stored: the database refuses the
  row when the session commits (\<open>DataError\<close>).
\<close>

definition text_column :: "pyval option \<Rightarrow> string option \<Rightarrow> error + string option" where
  "text_column incoming stored =
     (case incoming of
        None \<Rightarrow> Inr stored
      | Some v \<Rightarrow>
          if \<not> truthy v then Inr stored
          else (case v of PStr s \<Rightarrow> Inr (Some s) | _ \<Rightarrow> Inl DataError))"

definition int_column :: "pyval option \<Rightarrow> int option \<Rightarrow> error + int option" where
  "int_column incoming stored =
     (case incoming of
        None \<Rightarrow> Inr stored
      | Some v \<Rightarrow>
          if \<not> truthy v then Inr stored
          else (case v of PInt i \<Rightarrow> Inr (Some i) | _ \<Rightarrow> Inl DataError))"

text \<open>\<^verbatim>\<open>scores.get(key) or existing.column\<close>\<close>

definition score_or :: "score_dict \<Rightarrow> string \<Rightarrow> real option \<Rightarrow> real option" where
  "score_or sc k stored =
     (case map_of sc k of
        None \<Rightarrow> stored
      | Some v \<Rightarrow> if v \<noteq> 0 then Some v else stored)"

text \<open>
  The assignments of the branch \<^verbatim>\<open>if existing:\<close>: the row the session holds before
  \<^verbatim>\<open>db.commit()\<close>. The column \<^verbatim>\<open>updated_at\<close>, which the database stamps on every
  update, is left out of the model.
\<close>

definition merge_row ::
    "int \<Rightarrow> real \<Rightarrow> name_data \<Rightarrow> dict \<Rightarrow> score_dict \<Rightarrow> 'a Component_scheme
      \<Rightarrow> error + 'a Component_scheme" where
  "merge_row now price nd sp sc existing =
     (case text_column (dict_get sp ''socket_type'') (socket_type existing) of
        Inl e \<Rightarrow> Inl e
      | Inr socket_type_v \<Rightarrow>
     (case text_column (dict_get sp ''ram_type'') (ram_type existing) of
        Inl e \<Rightarrow> Inl e
      | Inr ram_type_v \<Rightarrow>
     (case int_column (dict_get sp ''ram_speed'') (ram_speed existing) of
        Inl e \<Rightarrow> Inl e
      | Inr ram_speed_v \<Rightarrow>
     (case int_column (dict_get sp ''tdp_watts'') (tdp_watts existing) of
        Inl e \<Rightarrow> Inl e
      | Inr tdp_watts_v \<Rightarrow>
     (case text_column (dict_get sp ''form_factor'') (form_factor existing) of
        Inl e \<Rightarrow> Inl e
      | Inr form_factor_v \<Rightarrow>
          Inr (existing
            \<lparr>in_stock := Some True,
             last_scraped_at := Some now,
             price_dzd := price,
             manufacturer := (if truthy_str (nd_manufacturer nd) then nd_manufacturer nd
                              else manufacturer existing),
             model := (if truthy_str (nd_model nd) then nd_model nd else model existing),
             specs := (if sp \<noteq> [] then Some sp else specs existing),
             benchmark_score := score_or sc ''benchmark_score'' (benchmark_score existing),
             gaming_score := score_or sc ''gaming_score'' (gaming_score existing),
             productivity_score :=
               score_or sc ''productivity_score'' (productivity_score existing),
             ai_score := score_or sc ''ai_score'' (ai_score existing),
             socket_type := socket_type_v,
             ram_type := ram_type_v,
             ram_speed := ram_speed_v,
             tdp_watts := tdp_watts_v,
             form_factor := form_factor_v\<rparr>))))))"

text \<open>
  \<^verbatim>\<open>db.commit()\<close>. The database is outside the repository: \<open>db_accepts\<close> says
  which rows it takes (column lengths, integer range, whatever else it enforces). The
  result is the row as committed, or the error that makes the handler roll back.
\<close>

definition update_existing ::
    "('a Component_scheme \<Rightarrow> bool) \<Rightarrow> int \<Rightarrow> real \<Rightarrow> name_data \<Rightarrow> dict \<Rightarrow> score_dict
      \<Rightarrow> 'a Component_scheme \<Rightarrow> error + 'a Component_scheme" where
  "update_existing db_accepts now price nd sp sc existing =
     (case merge_row now price nd sp sc existing of
        Inl e \<Rightarrow> Inl e
      | Inr row \<Rightarrow> if db_accepts row then Inr row else Inl DataError)"

text \<open>
  The stored row after one pass of the loop body over a listing that matches it: on an
  exception the handler rolls back and the row is as before.
\<close>

definition commit_update ::
    "('a Component_scheme \<Rightarrow> bool) \<Rightarrow> int \<Rightarrow> real \<Rightarrow> name_data \<Rightarrow> dict \<Rightarrow> score_dict
      \<Rightarrow> 'a Component_scheme \<Rightarrow> 'a Component_scheme" where
  "commit_update db_accepts now price nd sp sc existing =
     (case update_existing db_accepts now price nd sp sc existing of
        Inl e \<Rightarrow> existing
      | Inr row \<Rightarrow> row)"


text \<open>
  The loop body for a listing whose row exists: name parsing, extraction and scoring of
  the listing, then the update. An exception of the scorer reaches the same handler.
\<close>

definition ingest_existing ::
    "('a Component_scheme \<Rightarrow> bool) \<Rightarrow> int \<Rightarrow> listing \<Rightarrow> 'a Component_scheme
      \<Rightarrow> 'a Component_scheme" where
  "ingest_existing db_accepts now comp_data existing =
     (let name_data_v = parse_component_name (l_name comp_data) (l_component_type comp_data);
          specs_v = extract_specs (l_component_type comp_data) (l_name comp_data)
                      (l_description comp_data)
      in case calculate_benchmark_scores (l_component_type comp_data) (l_name comp_data) specs_v of
           Inl e \<Rightarrow> existing
         | Inr scores \<Rightarrow>
             commit_update db_accepts now (l_price_dzd comp_data) name_data_v specs_v scores
               existing)"

section \<open>Rows and tables for the concrete examples\<close>

text \<open>A row for the concrete examples: nothing known but identity, category and name.\<close>

definition blank_row :: "int \<Rightarrow> ComponentType \<Rightarrow> string \<Rightarrow> Component" where
  "blank_row i t n =
     \<lparr>comp_id = i, component_type = t, name = n, manufacturer = None, model = None,
      price_dzd = 1000, in_stock = Some True, specs = None, benchmark_score = None,
      gaming_score = None, productivity_score = None, ai_score = None, socket_type = None,
      chipset = None, ram_type = None, ram_speed = None, tdp_watts = None,
      form_factor = None, last_scraped_at = None\<rparr>"

text \<open>A small table: a CPU, two power supplies, two boards, a case and a GPU.\<close>

definition example_db :: "Component list" where
  "example_db =
     [(blank_row 1 CPU ''cpu one'')\<lparr>tdp_watts := Some 65\<rparr>,
      (blank_row 2 PSU ''psu two'')\<lparr>tdp_watts := Some 50, specs := Some [(''wattage'', PInt 500)]\<rparr>,
      (blank_row 3 MOTHERBOARD ''board three'')\<lparr>form_factor := Some ''mATX''\<rparr>,
      (blank_row 4 CASE ''case four'')\<lparr>form_factor := Some ''ATX''\<rparr>,
      (blank_row 5 GPU ''gpu five'')\<lparr>gaming_score := Some 90, ai_score := Some 100\<rparr>,
      (blank_row 6 PSU ''psu six'')\<lparr>specs := Some [(''wattage'', PInt 50)]\<rparr>,
      (blank_row 7 MOTHERBOARD ''board seven'')\<lparr>form_factor := Some ''ITX''\<rparr>]"



section \<open>Properties of the staleness sweep\<close>

lemma mark_out_of_stock_nth:
  "i < length db \<Longrightarrow>
   fst (mark_out_of_stock now db) ! i =
     (if sweep_selects (now - hours 48) (db ! i) then (db ! i)\<lparr>in_stock := Some False\<rparr> else db ! i)"
  by (simp add: mark_out_of_stock_def Let_def)

text \<open>
  C8. The sweep keeps every row (same length, same identities in the same order) and
  changes a row exactly when its last ingestion is more than 48 hours old and it is in
  stock; then only \<open>in_stock\<close> changes, to false. A row ingested 49 hours ago and in
  stock is flipped, a row ingested 47 hours ago is untouched.
\<close>

theorem mark_out_of_stock_exact:
  fixes db :: "'a Component_scheme list"
  shows "length (fst (mark_out_of_stock now db)) = length db
    \<and> map comp_id (fst (mark_out_of_stock now db)) = map comp_id db
    \<and> (\<forall>i < length db.
          fst (mark_out_of_stock now db) ! i =
            (if (\<exists>t. last_scraped_at (db ! i) = Some t \<and> t < now - hours 48)
                \<and> in_stock (db ! i) = Some True
             then (db ! i)\<lparr>in_stock := Some False\<rparr> else db ! i))
    \<and> (\<forall>i < length db.
          last_scraped_at (db ! i) = Some (now - hours 49) \<and> in_stock (db ! i) = Some True
          \<longrightarrow> fst (mark_out_of_stock now db) ! i = (db ! i)\<lparr>in_stock := Some False\<rparr>)
    \<and> (\<forall>i < length db.
          last_scraped_at (db ! i) = Some (now - hours 47)
          \<longrightarrow> fst (mark_out_of_stock now db) ! i = db ! i)"
proof -
  have sel: "sweep_selects (now - hours 48) c \<longleftrightarrow>
      (\<exists>t. last_scraped_at c = Some t \<and> t < now - hours 48) \<and> in_stock c = Some True"
    for c :: "'a Component_scheme"
    by (cases "last_scraped_at c") (simp_all add: sweep_selects_def)
  have len: "length (fst (mark_out_of_stock now db)) = length db"
    by (simp add: mark_out_of_stock_def Let_def)
  have ids: "map comp_id (fst (mark_out_of_stock now db)) = map comp_id db"
    by (simp add: mark_out_of_stock_def Let_def)
  have nth: "\<forall>i < length db.
      fst (mark_out_of_stock now db) ! i =
        (if (\<exists>t. last_scraped_at (db ! i) = Some t \<and> t < now - hours 48)
            \<and> in_stock (db ! i) = Some True
         then (db ! i)\<lparr>in_stock := Some False\<rparr> else db ! i)"
    using mark_out_of_stock_nth [of _ db now] by (simp add: sel)
  have h49: "\<forall>i < length db.
      last_scraped_at (db ! i) = Some (now - hours 49) \<and> in_stock (db ! i) = Some True
      \<longrightarrow> fst (mark_out_of_stock now db) ! i = (db ! i)\<lparr>in_stock := Some False\<rparr>"
    using nth by (simp add: hours_def)
  have h47: "\<forall>i < length db.
      last_scraped_at (db ! i) = Some (now - hours 47)
      \<longrightarrow> fst (mark_out_of_stock now db) ! i = db ! i"
    using nth by (simp add: hours_def)
  from len ids nth h49 h47 show ?thesis by blast
qed

theorem mark_out_of_stock_exact_witness:
  "fst (mark_out_of_stock (hours 100)
        [(blank_row 1 CPU ''a'')\<lparr>last_scraped_at := Some (hours 100 - hours 49)\<rparr>,
         (blank_row 2 GPU ''b'')\<lparr>last_scraped_at := Some (hours 100 - hours 47)\<rparr>]) ! 0
     = (blank_row 1 CPU ''a'')\<lparr>last_scraped_at := Some (hours 100 - hours 49),
                               in_stock := Some False\<rparr>
   \<and> fst (mark_out_of_stock (hours 100)
        [(blank_row 1 CPU ''a'')\<lparr>last_scraped_at := Some (hours 100 - hours 49)\<rparr>,
         (blank_row 2 GPU ''b'')\<lparr>last_scraped_at := Some (hours 100 - hours 47)\<rparr>]) ! 1
     = (blank_row 2 GPU ''b'')\<lparr>last_scraped_at := Some (hours 100 - hours 47)\<rparr>"
  using mark_out_of_stock_exact [of "hours 100"
        "[(blank_row 1 CPU ''a'')\<lparr>last_scraped_at := Some (hours 100 - hours 49)\<rparr>,
          (blank_row 2 GPU ''b'')\<lparr>last_scraped_at := Some (hours 100 - hours 47)\<rparr>]"]
  by (simp add: blank_row_def hours_def)

section \<open>Properties of the compatibility checker\<close>

text \<open>The definitions unfolded to evaluate the checker on a concrete table.\<close>

lemmas ev = example_db_def blank_row_def check_compatibility_def query_by_ids_def build_comp_map_def
     check_socket_def check_ram_def check_psu_def check_form_factor_def Let_def tdp_or_0_def
     non_psu_tdp_def psu_wattage_def get_or_def dict_get_def

lemma check_socket_flag:
  "(st_compatible st \<longleftrightarrow> (\<forall>i \<in> set (st_issues st). severity i \<noteq> ''critical'')) \<Longrightarrow>
   (st_compatible (check_socket m st) \<longleftrightarrow>
      (\<forall>i \<in> set (st_issues (check_socket m st)). severity i \<noteq> ''critical''))"
  by (auto simp: check_socket_def split: option.splits)

lemma check_ram_flag:
  "(st_compatible st \<longleftrightarrow> (\<forall>i \<in> set (st_issues st). severity i \<noteq> ''critical'')) \<Longrightarrow>
   (st_compatible (check_ram m st) \<longleftrightarrow>
      (\<forall>i \<in> set (st_issues (check_ram m st)). severity i \<noteq> ''critical''))"
  by (auto simp: check_ram_def split: option.splits)

lemma check_form_factor_flag:
  "(st_compatible st \<longleftrightarrow> (\<forall>i \<in> set (st_issues st). severity i \<noteq> ''critical'')) \<Longrightarrow>
   (st_compatible (check_form_factor m st) \<longleftrightarrow>
      (\<forall>i \<in> set (st_issues (check_form_factor m st)). severity i \<noteq> ''critical''))"
  by (auto simp: check_form_factor_def split: option.splits)

lemma check_psu_flag:
  "check_psu cs m st = Inr st' \<Longrightarrow>
   (st_compatible st \<longleftrightarrow> (\<forall>i \<in> set (st_issues st). severity i \<noteq> ''critical'')) \<Longrightarrow>
   (st_compatible st' \<longleftrightarrow> (\<forall>i \<in> set (st_issues st'). severity i \<noteq> ''critical''))"
  by (auto simp: check_psu_def Let_def split: option.splits sum.splits if_splits)

lemma check_socket_psu_kind:
  "(\<forall>i \<in> set (st_issues st). issue_type i = ''insufficient_psu'' \<longrightarrow> severity i = ''warning'') \<Longrightarrow>
   (\<forall>i \<in> set (st_issues (check_socket m st)). issue_type i = ''insufficient_psu'' \<longrightarrow> severity i = ''warning'')"
  by (auto simp: check_socket_def split: option.splits)

lemma check_ram_psu_kind:
  "(\<forall>i \<in> set (st_issues st). issue_type i = ''insufficient_psu'' \<longrightarrow> severity i = ''warning'') \<Longrightarrow>
   (\<forall>i \<in> set (st_issues (check_ram m st)). issue_type i = ''insufficient_psu'' \<longrightarrow> severity i = ''warning'')"
  by (auto simp: check_ram_def split: option.splits)

lemma check_form_factor_psu_kind:
  "(\<forall>i \<in> set (st_issues st). issue_type i = ''insufficient_psu'' \<longrightarrow> severity i = ''warning'') \<Longrightarrow>
   (\<forall>i \<in> set (st_issues (check_form_factor m st)). issue_type i = ''insufficient_psu'' \<longrightarrow> severity i = ''warning'')"
  by (auto simp: check_form_factor_def split: option.splits)

lemma check_psu_psu_kind:
  "check_psu cs m st = Inr st' \<Longrightarrow>
   (\<forall>i \<in> set (st_issues st). issue_type i = ''insufficient_psu'' \<longrightarrow> severity i = ''warning'') \<Longrightarrow>
   (\<forall>i \<in> set (st_issues st'). issue_type i = ''insufficient_psu'' \<longrightarrow> severity i = ''warning'')"
  by (auto simp: check_psu_def Let_def split: option.splits sum.splits if_splits)

lemma check_form_factor_keeps: "set (st_issues st) \<subseteq> set (st_issues (check_form_factor m st))"
  by (auto simp: check_form_factor_def split: option.splits)

lemma check_psu_warns:
  "check_psu cs m st = Inr st' \<Longrightarrow> m ''psu'' = Some psu \<Longrightarrow> as_number (psu_wattage psu) = Inr w \<Longrightarrow>
   w < real_of_int (non_psu_tdp cs) * 1.3 \<Longrightarrow>
   \<exists>i \<in> set (st_issues st'). severity i = ''warning'' \<and> issue_type i = ''insufficient_psu''"
  by (auto simp: check_psu_def Let_def split: option.splits sum.splits if_splits)

lemma check_compatibility_Inr:
  "check_compatibility db ids = Inr r \<Longrightarrow>
   \<exists>st3. check_psu (query_by_ids db ids) (build_comp_map (query_by_ids db ids))
          (check_ram (build_comp_map (query_by_ids db ids))
            (check_socket (build_comp_map (query_by_ids db ids)) \<lparr>st_issues = [], st_compatible = True\<rparr>)) = Inr st3
      \<and> compatible r = st_compatible (check_form_factor (build_comp_map (query_by_ids db ids)) st3)
      \<and> issues r = st_issues (check_form_factor (build_comp_map (query_by_ids db ids)) st3)
      \<and> total_tdp_watts r = sum_list (map tdp_or_0 (query_by_ids db ids))
      \<and> length (query_by_ids db ids) = length ids"
  by (auto simp: check_compatibility_def Let_def split: if_splits sum.splits)

text \<open>
  C4. When the checker returns a verdict, \<open>compatible\<close> is true exactly when no issue
  of severity critical was produced. If the set has a PSU whose wattage is a number below
  1.3 times the summed TDP of the non-PSU rows, an issue \<open>insufficient_psu\<close> of severity
  warning is among the issues, and \<open>compatible\<close> is true exactly when no other issue is
  critical.
\<close>

theorem check_compatibility_flag:
  assumes "check_compatibility db ids = Inr r"
  shows "(compatible r \<longleftrightarrow> (\<forall>i \<in> set (issues r). severity i \<noteq> ''critical''))
    \<and> (\<forall>psu w. build_comp_map (query_by_ids db ids) ''psu'' = Some psu
           \<and> as_number (psu_wattage psu) = Inr w
           \<and> w < 1.3 * real_of_int (non_psu_tdp (query_by_ids db ids))
         \<longrightarrow> (\<exists>i \<in> set (issues r). severity i = ''warning'' \<and> issue_type i = ''insufficient_psu'')
           \<and> (compatible r \<longleftrightarrow>
                (\<forall>i \<in> set (issues r). issue_type i \<noteq> ''insufficient_psu'' \<longrightarrow> severity i \<noteq> ''critical'')))"
proof -
  let ?cs = "query_by_ids db ids"
  let ?m = "build_comp_map ?cs"
  let ?st0 = "\<lparr>st_issues = [], st_compatible = True\<rparr>"
  from check_compatibility_Inr [OF assms] obtain st3 where
    psu: "check_psu ?cs ?m (check_ram ?m (check_socket ?m ?st0)) = Inr st3"
    and c: "compatible r = st_compatible (check_form_factor ?m st3)"
    and i: "issues r = st_issues (check_form_factor ?m st3)"
    by blast
  have f0: "st_compatible ?st0 \<longleftrightarrow> (\<forall>i \<in> set (st_issues ?st0). severity i \<noteq> ''critical'')"
    by simp
  have k0: "\<forall>i \<in> set (st_issues ?st0). issue_type i = ''insufficient_psu'' \<longrightarrow> severity i = ''warning''"
    by simp
  have flag: "compatible r \<longleftrightarrow> (\<forall>i \<in> set (issues r). severity i \<noteq> ''critical'')"
    unfolding c i
    by (rule check_form_factor_flag, rule check_psu_flag [OF psu], rule check_ram_flag,
        rule check_socket_flag, rule f0)
  have kind: "\<forall>i \<in> set (issues r). issue_type i = ''insufficient_psu'' \<longrightarrow> severity i = ''warning''"
    unfolding i
    by (rule check_form_factor_psu_kind, rule check_psu_psu_kind [OF psu], rule check_ram_psu_kind,
        rule check_socket_psu_kind, rule k0)
  have other: "compatible r \<longleftrightarrow>
      (\<forall>i \<in> set (issues r). issue_type i \<noteq> ''insufficient_psu'' \<longrightarrow> severity i \<noteq> ''critical'')"
    using flag kind by auto
  have warn: "\<exists>i \<in> set (issues r). severity i = ''warning'' \<and> issue_type i = ''insufficient_psu''"
    if "?m ''psu'' = Some psu" "as_number (psu_wattage psu) = Inr w"
       "w < 1.3 * real_of_int (non_psu_tdp ?cs)" for psu w
  proof -
    from that have "w < real_of_int (non_psu_tdp ?cs) * 1.3" by (simp add: mult.commute)
    from check_psu_warns [OF psu that(1) that(2) this]
    show ?thesis unfolding i using check_form_factor_keeps by blast
  qed
  from flag other warn show ?thesis by blast
qed

theorem check_compatibility_flag_witness:
  "check_compatibility example_db [1, 6] =
     Inr \<lparr>compatible = True, compatibility_score = 100,
          issues = [\<lparr>severity = ''warning'', issue_type = ''insufficient_psu'',
                     description = PsuText (PInt 50) (169 / 2)\<rparr>],
          total_tdp_watts = 65\<rparr>
   \<and> (compatible \<lparr>compatible = True, compatibility_score = 100,
          issues = [\<lparr>severity = ''warning'', issue_type = ''insufficient_psu'',
                     description = PsuText (PInt 50) (169 / 2)\<rparr>],
          total_tdp_watts = 65\<rparr> \<longleftrightarrow> True)"
  using check_compatibility_flag [of example_db "[1, 6]"
      "\<lparr>compatible = True, compatibility_score = 100,
          issues = [\<lparr>severity = ''warning'', issue_type = ''insufficient_psu'',
                     description = PsuText (PInt 50) (169 / 2)\<rparr>],
          total_tdp_watts = 65\<rparr>"]
  by (simp add: ev)

text \<open>
  The returned total is the sum over every selected row: the non-PSU sum of the power
  check plus the TDP of the selected PSU rows.
\<close>

lemma total_tdp_split:
  "sum_list (map tdp_or_0 cs) =
     non_psu_tdp cs + sum_list (map tdp_or_0 (filter (\<lambda>c. component_type c = PSU) cs))"
  by (induction cs) (auto simp: non_psu_tdp_def)

lemma check_compatibility_total_tdp:
  "check_compatibility db ids = Inr r \<Longrightarrow>
   total_tdp_watts r =
     non_psu_tdp (query_by_ids db ids)
     + sum_list (map tdp_or_0 (filter (\<lambda>c. component_type c = PSU) (query_by_ids db ids)))"
  using check_compatibility_Inr [of db ids r] total_tdp_split [of "query_by_ids db ids"] by auto

text \<open>
  C3. On a CPU of 65 W and a PSU row whose own TDP column holds 50, the checker returns
  \<open>total_tdp_watts = 115\<close>, while the sum over the non-PSU rows is 65: the returned
  total is computed a second time, without the filter on the category that the power
  check applies.
\<close>

theorem total_tdp_counts_psu:
  "check_compatibility example_db [1, 2] =
     Inr \<lparr>compatible = True, compatibility_score = 100, issues = [], total_tdp_watts = 115\<rparr>
   \<and> non_psu_tdp (query_by_ids example_db [1, 2]) = 65"
  by (simp add: ev)

text \<open>
  C5. A board of form factor mATX (or ITX) with a case of form factor ATX: the test is
  \<^verbatim>\<open>mobo.form_factor not in case.form_factor\<close> on two strings, neither
  \<^verbatim>\<open>"mATX"\<close> nor \<^verbatim>\<open>"ITX"\<close> is a substring of \<^verbatim>\<open>"ATX"\<close>, and the checker
  reports a critical \<open>form_factor_mismatch\<close> and \<open>compatible = False\<close>.
\<close>

theorem form_factor_substring_rejects:
  "check_compatibility example_db [3, 4] =
     Inr \<lparr>compatible = False, compatibility_score = 50,
          issues = [\<lparr>severity = ''critical'', issue_type = ''form_factor_mismatch'',
                     description = FormFactorText ''mATX'' ''ATX''\<rparr>],
          total_tdp_watts = 0\<rparr>
   \<and> check_compatibility example_db [4, 7] =
     Inr \<lparr>compatible = False, compatibility_score = 50,
          issues = [\<lparr>severity = ''critical'', issue_type = ''form_factor_mismatch'',
                     description = FormFactorText ''ITX'' ''ATX''\<rparr>],
          total_tdp_watts = 0\<rparr>"
  by (simp add: ev)

section \<open>Properties of the build scorer\<close>

lemmas evr = example_db_def blank_row_def rate_performance_def query_by_ids_def build_comp_map_def
     score_or_0_def Let_def ram_capacity_of_def get_or_def dict_get_def weighted_overall_def

lemma query_by_ids_distinct:
  "distinct (map comp_id db) \<Longrightarrow> distinct (map comp_id (query_by_ids db ids))"
  by (simp add: query_by_ids_def distinct_map_filter)

lemma query_by_ids_set:
  "set (map comp_id (query_by_ids db ids)) = set ids \<inter> set (map comp_id db)"
  by (auto simp: query_by_ids_def)

lemma query_by_ids_short:
  assumes d: "distinct (map comp_id db)" and m: "x \<in> set ids" "x \<notin> set (map comp_id db)"
  shows "length (query_by_ids db ids) < length ids"
proof -
  have "length (query_by_ids db ids) = card (set (map comp_id (query_by_ids db ids)))"
    using distinct_card [OF query_by_ids_distinct [OF d, of ids]] by simp
  also have "\<dots> = card (set ids \<inter> set (map comp_id db))"
    by (simp only: query_by_ids_set)
  also have "\<dots> < card (set ids)"
    using m by (intro psubset_card_mono) auto
  also have "\<dots> \<le> length ids" by (rule card_length)
  finally show ?thesis .
qed

text \<open>
  The checker refuses a request that names an identity absent from the table (identities
  are a primary key, so they are distinct).
\<close>

lemma check_compatibility_not_found:
  "distinct (map comp_id db) \<Longrightarrow> x \<in> set ids \<Longrightarrow> x \<notin> set (map comp_id db) \<Longrightarrow>
   check_compatibility db ids = Inl NotFound"
  using query_by_ids_short [of db x ids] by (simp add: check_compatibility_def Let_def)

text \<open>
  C6. The build scorer has no such test. With the identity 999 absent from the table, the
  checker answers \<open>NotFound\<close>, and the scorer answers with the scores of the rows it
  found: gaming 54 from the GPU alone.
\<close>

theorem rate_performance_scores_partial:
  "999 \<notin> set (map comp_id example_db)
   \<and> check_compatibility example_db [5, 999] = Inl NotFound
   \<and> rate_performance example_db [5, 999] ''gaming'' =
     Inr \<lparr>use_case = ''gaming'', use_case_score = 54,
          all_scores = [(''gaming'', 54), (''productivity'', 0), (''ai_ml'', 70),
                        (''overall'', 2081 / 50)],
          rating = ''fair''\<rparr>"
  by (simp add: evr check_compatibility_def)

text \<open>
  C7, as the claim states it, fails: for a GPU alone with gaming score 90 and AI score
  100 the aggregates are 54, 0 and 70, their mean is 124/3, and \<open>overall\<close> is 41.62.
\<close>

theorem overall_not_mean:
  "rate_performance example_db [5] ''gaming'' =
     Inr \<lparr>use_case = ''gaming'', use_case_score = 54,
          all_scores = [(''gaming'', 54), (''productivity'', 0), (''ai_ml'', 70),
                        (''overall'', 2081 / 50)],
          rating = ''fair''\<rparr>
   \<and> (2081 / 50 :: real) \<noteq> (54 + 0 + 70) / 3"
  by (simp add: evr)

text \<open>
  C7, amended. Whenever the scorer returns, \<open>overall\<close> is
  0.33 x gaming + 0.33 x productivity + 0.34 x ai\_ml of the three aggregates it returns.
\<close>

theorem rate_performance_overall_weights:
  assumes "rate_performance db ids uc = Inr r"
  shows "\<exists>g p a. all_scores r =
           [(''gaming'', g), (''productivity'', p), (''ai_ml'', a),
            (''overall'', 0.33 * g + 0.33 * p + 0.34 * a)]"
proof -
  from assms have "all_scores r =
      [(''gaming'', snd (all_scores r ! 0)), (''productivity'', snd (all_scores r ! 1)),
       (''ai_ml'', snd (all_scores r ! 2)),
       (''overall'', weighted_overall (snd (all_scores r ! 0)) (snd (all_scores r ! 1))
                       (snd (all_scores r ! 2)))]"
    by (auto simp: rate_performance_def Let_def split: option.splits sum.splits prod.splits)
  moreover have "weighted_overall g p a = 0.33 * g + 0.33 * p + 0.34 * a" for g p a
    by (simp add: weighted_overall_def)
  ultimately show ?thesis by metis
qed

theorem rate_performance_overall_weights_witness:
  "rate_performance example_db [5] ''gaming'' =
     Inr \<lparr>use_case = ''gaming'', use_case_score = 54,
          all_scores = [(''gaming'', 54), (''productivity'', 0), (''ai_ml'', 70),
                        (''overall'', 2081 / 50)],
          rating = ''fair''\<rparr>
   \<and> (\<exists>g p a. all_scores \<lparr>use_case = ''gaming'', use_case_score = 54,
          all_scores = [(''gaming'', 54), (''productivity'', 0), (''ai_ml'', 70),
                        (''overall'', 2081 / 50)],
          rating = ''fair''\<rparr> =
           [(''gaming'', g), (''productivity'', p), (''ai_ml'', a),
            (''overall'', 0.33 * g + 0.33 * p + 0.34 * a)])"
  using rate_performance_overall_weights [of example_db "[5]" "''gaming''"
     "\<lparr>use_case = ''gaming'', use_case_score = 54,
          all_scores = [(''gaming'', 54), (''productivity'', 0), (''ai_ml'', 70),
                        (''overall'', 2081 / 50)],
          rating = ''fair''\<rparr>"]
  by (simp add: evr)

section \<open>Properties of the benchmark scorer\<close>

lemma find_tier_mem: "find_tier t n = Some v \<Longrightarrow> v \<in> snd ` set t"
  by (induction t n rule: find_tier.induct) (auto split: if_splits)

lemma cpu_tier_bounds:
  assumes "find_tier CPU_SCORES n = Some (b, g, p, a)"
  shows "0 \<le> b \<and> 50 \<le> g \<and> 0 \<le> p \<and> 0 \<le> a"
  using find_tier_mem [OF assms] by (auto simp: CPU_SCORES_def)

lemma gpu_tier_bounds:
  assumes "find_tier GPU_SCORES n = Some (b, g, p, a)"
  shows "0 \<le> b \<and> 0 \<le> g \<and> 0 \<le> p \<and> 0 \<le> a"
  using find_tier_mem [OF assms] by (auto simp: GPU_SCORES_def)

lemma capped_keys:
  "map fst (capped b g p a) =
     [''benchmark_score'', ''gaming_score'', ''productivity_score'', ''ai_score'']"
  by (simp add: capped_def)

lemma capped_upper: "(k, v) \<in> set (capped b g p a) \<Longrightarrow> v \<le> 100"
  by (auto simp: capped_def)

lemma capped_lower:
  "0 \<le> b \<Longrightarrow> 0 \<le> g \<Longrightarrow> 0 \<le> p \<Longrightarrow> 0 \<le> a \<Longrightarrow> (k, v) \<in> set (capped b g p a) \<Longrightarrow> 0 \<le> v"
  by (auto simp: capped_def)

text \<open>Each calculator returns a capped dictionary.\<close>

lemma as_float_value: "as_float v = Inr x \<Longrightarrow> as_number v = Inr x"
  by (cases v) (auto split: if_splits)

lemma true_div_value:
  "true_div v n = Inr q \<Longrightarrow> \<exists>c. as_number v = Inr c \<and> q = c / real_of_int n"
  by (cases v) (auto split: if_splits)

lemma cpu_capped:
  assumes "calculate_cpu_scores nm sp = Inr d"
  obtains b g p a where "d = capped b g p a" "0 \<le> b" "0 \<le> g" "0 \<le> p" "0 \<le> a"
proof -
  obtain b0 g0 p0 a0 where t:
    "(case find_tier CPU_SCORES (lower nm) of None \<Rightarrow> (50, 50, 50, 45) | Some t \<Rightarrow> t) = (b0, g0, p0, a0)"
    by (metis prod_cases4)
  have bnd: "0 \<le> b0 \<and> 50 \<le> g0 \<and> 0 \<le> p0 \<and> 0 \<le> a0"
  proof (cases "find_tier CPU_SCORES (lower nm)")
    case None with t show ?thesis by auto
  next
    case (Some x) with t cpu_tier_bounds [of "lower nm" b0 g0 p0 a0] show ?thesis by simp
  qed
  let ?cv = "get_or sp ''cores'' (PInt 0)"
  let ?kv = "get_or sp ''base_clock_ghz'' (PInt 0)"
  from assms obtain cores cf clock kf where
    c: "as_number ?cv = Inr cores"
    and cf: "(if cores > 0 then as_float ?cv else Inr cores) = Inr cf"
    and k: "as_number ?kv = Inr clock"
    and kf: "(if clock > 0 then as_float ?kv else Inr clock) = Inr kf"
    by (auto simp: calculate_cpu_scores_def Let_def split: sum.splits prod.splits)
  have cf': "cf = cores" using c cf as_float_value [of ?cv cf] by (auto split: if_splits)
  have kf': "kf = clock" using k kf as_float_value [of ?kv kf] by (auto split: if_splits)
  let ?g = "if clock > 0 then g0 + min ((kf - 3.0) * 10) 15 else g0"
  let ?p = "if cores > 0 then p0 + min (cores * 2) 20 else p0"
  let ?a = "if cores > 0 then a0 + min (cf * 1.5) 15 else a0"
  from assms t c cf k kf have d: "d = capped b0 ?g ?p ?a"
    by (simp add: calculate_cpu_scores_def Let_def)
  have "0 \<le> ?g" using bnd by (auto simp: min_def kf')
  moreover have "0 \<le> ?p" using bnd by (auto simp: min_def)
  moreover have "0 \<le> ?a" using bnd by (auto simp: min_def cf')
  ultimately show thesis using that [OF d] bnd by blast
qed

lemma gpu_capped:
  assumes "calculate_gpu_scores nm sp = Inr d"
  obtains b g p a where "d = capped b g p a" "0 \<le> b" "0 \<le> g" "0 \<le> p" "0 \<le> a"
proof -
  obtain b0 g0 p0 a0 where t:
    "(case find_tier GPU_SCORES (lower nm) of None \<Rightarrow> (40, 45, 40, 35) | Some t \<Rightarrow> t) = (b0, g0, p0, a0)"
    by (metis prod_cases4)
  have bnd: "0 \<le> b0 \<and> 0 \<le> g0 \<and> 0 \<le> p0 \<and> 0 \<le> a0"
  proof (cases "find_tier GPU_SCORES (lower nm)")
    case None with t show ?thesis by auto
  next
    case (Some x) with t gpu_tier_bounds [of "lower nm" b0 g0 p0 a0] show ?thesis by simp
  qed
  from assms obtain vram where v: "as_number (get_or sp ''vram_gb'' (PInt 0)) = Inr vram"
    by (auto simp: calculate_gpu_scores_def Let_def split: sum.splits prod.splits)
  let ?x = "dict_get sp ''memory_type'' = Some (PStr ''GDDR6X'')"
  let ?a1 = "if vram \<ge> 24 then a0 + 20 else if vram \<ge> 16 then a0 + 15
             else if vram \<ge> 12 then a0 + 10 else if vram \<ge> 8 then a0 + 5 else a0"
  let ?g = "if ?x then g0 + 5 else g0"
  let ?a = "if ?x then ?a1 + 5 else ?a1"
  from assms t v have d: "d = capped b0 ?g p0 ?a"
    by (simp add: calculate_gpu_scores_def Let_def)
  have "0 \<le> ?g" using bnd by auto
  moreover have "0 \<le> ?a" using bnd by auto
  ultimately show thesis using that [OF d] bnd by blast
qed

lemma ram_capped:
  assumes "calculate_ram_scores nm sp = Inr d"
  obtains b g p a c where "d = capped b g p a"
    "as_number (get_or sp ''capacity_gb'' (PInt 0)) = Inr c"
    "0 \<le> c \<longrightarrow> 0 \<le> b \<and> 0 \<le> g \<and> 0 \<le> p \<and> 0 \<le> a"
proof -
  let ?v = "get_or sp ''capacity_gb'' (PInt 0)"
  from assms obtain q32 q16 where q32: "true_div ?v 32 = Inr q32"
    and q16: "true_div ?v 16 = Inr q16"
    by (auto simp: calculate_ram_scores_def Let_def split: sum.splits)
  from true_div_value [OF q32] obtain c where c: "as_number ?v = Inr c" and c32: "q32 = c / 32"
    by auto
  from true_div_value [OF q16] c have c16: "q16 = c / 16" by auto
  let ?b0 = "min (q32 * 100) 100"
  from assms q32 q16 obtain b where
    b: "d = capped b (b * 0.3) (min (q16 * 100) 100) (min (q32 * 100) 100)"
    and bb: "b = ?b0 + 10 \<or> b = ?b0 + 5 \<or> b = ?b0"
    by (auto simp: calculate_ram_scores_def Let_def split: sum.splits if_splits)
  have "0 \<le> c \<longrightarrow> 0 \<le> b \<and> 0 \<le> b * 0.3 \<and> 0 \<le> min (q16 * 100) 100 \<and> 0 \<le> min (q32 * 100) 100"
    using bb by (auto simp: min_def c32 c16)
  from that [OF b c this] show thesis .
qed

lemma storage_type_score_pos: "storage_type_score t = Inr x \<Longrightarrow> 40 \<le> x"
  by (auto simp: storage_type_score_def split: sum.splits bool.splits)

lemma storage_capped:
  assumes "calculate_storage_scores nm sp = Inr d"
  obtains b g p a where "d = capped b g p a" "0 \<le> b" "0 \<le> g" "0 \<le> p" "0 \<le> a"
proof -
  from assms obtain b0 c where
    b0: "storage_type_score (get_or sp ''type'' (PStr '''')) = Inr b0"
    and c: "as_number (get_or sp ''capacity_gb'' (PInt 0)) = Inr c"
    by (auto simp: calculate_storage_scores_def split: sum.splits)
  let ?b = "if c \<ge> 2000 then b0 + 10 else if c \<ge> 1000 then b0 + 5 else b0"
  from assms b0 c have d: "d = capped ?b (?b * 0.8) ?b (?b * 0.7)"
    by (simp add: calculate_storage_scores_def Let_def)
  have "0 \<le> ?b" using storage_type_score_pos [OF b0] by auto
  then have "0 \<le> ?b * 0.8" "0 \<le> ?b * 0.7" by auto
  from that [OF d \<open>0 \<le> ?b\<close> this(1) \<open>0 \<le> ?b\<close> this(2)] show thesis .
qed

lemma efficiency_bonus_nonneg: "efficiency_bonus e = Inr x \<Longrightarrow> 0 \<le> x"
  by (auto simp: efficiency_bonus_def split: sum.splits bool.splits)

lemma psu_capped:
  assumes "calculate_psu_scores nm sp = Inr d"
  obtains b g p a where "d = capped b g p a" "0 \<le> b" "0 \<le> g" "0 \<le> p" "0 \<le> a"
proof -
  from assms obtain w x where
    w: "as_number (get_or sp ''wattage'' (PInt 0)) = Inr w"
    and x: "efficiency_bonus (get_or sp ''efficiency'' (PStr '''')) = Inr x"
    by (auto simp: calculate_psu_scores_def Let_def split: sum.splits)
  let ?b0 = "if w \<ge> 1000 then 90 else if w \<ge> 750 then 80 else if w \<ge> 650 then 70
             else if w \<ge> 550 then 60 else (50::real)"
  from assms w x have d: "d = capped (?b0 + x) (?b0 + x) (?b0 + x) (?b0 + x)"
    by (simp add: calculate_psu_scores_def Let_def)
  have nn: "0 \<le> ?b0 + x" using efficiency_bonus_nonneg [OF x] by auto
  from that [OF d nn nn nn nn] show thesis .
qed

text \<open>
  What the dispatch returns is a capped dictionary, whose uncapped values are not negative
  unless the category is \<open>ram\<close> and the capacity is negative.
\<close>

lemma benchmark_scores_shape:
  assumes "calculate_benchmark_scores ct nm sp = Inr d"
  obtains b g p a where "d = capped b g p a"
    "(lower ct = ''ram'' \<longrightarrow>
        (\<exists>c. as_number (get_or sp ''capacity_gb'' (PInt 0)) = Inr c \<and> 0 \<le> c))
      \<longrightarrow> 0 \<le> b \<and> 0 \<le> g \<and> 0 \<le> p \<and> 0 \<le> a"
proof -
  consider (cpu) "lower ct = ''cpu''" "calculate_cpu_scores nm sp = Inr d"
    | (gpu) "lower ct = ''gpu''" "calculate_gpu_scores nm sp = Inr d"
    | (ram) "lower ct = ''ram''" "calculate_ram_scores nm sp = Inr d"
    | (storage) "lower ct = ''storage''" "calculate_storage_scores nm sp = Inr d"
    | (psu) "lower ct = ''psu''" "calculate_psu_scores nm sp = Inr d"
    | (other) "lower ct \<noteq> ''ram''" "d = capped 50 50 50 50"
    using assms
    by (auto simp: calculate_benchmark_scores_def Let_def capped_def split: if_splits)
  then show thesis
  proof cases
    case cpu
    from cpu_capped [OF cpu(2)] show thesis using that by metis
  next
    case gpu
    from gpu_capped [OF gpu(2)] show thesis using that by metis
  next
    case ram
    from ram_capped [OF ram(2)] obtain b g p a c where d: "d = capped b g p a"
      and c: "as_number (get_or sp ''capacity_gb'' (PInt 0)) = Inr c"
      and nn: "0 \<le> c \<longrightarrow> 0 \<le> b \<and> 0 \<le> g \<and> 0 \<le> p \<and> 0 \<le> a" by blast
    have "(lower ct = ''ram'' \<longrightarrow>
        (\<exists>c. as_number (get_or sp ''capacity_gb'' (PInt 0)) = Inr c \<and> 0 \<le> c))
      \<longrightarrow> 0 \<le> b \<and> 0 \<le> g \<and> 0 \<le> p \<and> 0 \<le> a"
      using ram(1) c nn by auto
    with d show thesis using that by blast
  next
    case storage
    from storage_capped [OF storage(2)] show thesis using that by metis
  next
    case psu
    from psu_capped [OF psu(2)] show thesis using that by metis
  next
    case other
    have "(0::real) \<le> 50" by simp
    with other(2) show thesis using that by blast
  qed
qed

text \<open>The definitions unfolded to evaluate the scorer on a concrete input.\<close>

lemmas evb = calculate_benchmark_scores_def calculate_ram_scores_def calculate_cpu_scores_def
  calculate_gpu_scores_def calculate_storage_scores_def calculate_psu_scores_def
  storage_type_score_def efficiency_bonus_def lower_def lower_char_def get_or_def dict_get_def
  Let_def capped_def CPU_SCORES_def GPU_SCORES_def FLOAT_LIMIT_def

text \<open>
  The scorer by itself has no lower clamp, only \<^verbatim>\<open>min(score, 100.0)\<close>: on a map with a
  negative capacity, which no extraction yields, the scores are negative. The lower bound
  of the scores rests on the extractor.
\<close>

lemma scorer_has_no_lower_clamp:
  "calculate_benchmark_scores ''ram'' ''stick'' [(''capacity_gb'', PInt (- 32))] =
     Inr [(''benchmark_score'', - 100), (''gaming_score'', - 30),
          (''productivity_score'', - 200), (''ai_score'', - 100)]"
  by (simp add: evb)

section \<open>Properties of the catalog upsert\<close>




lemma merge_row_Inr:
  assumes "merge_row now price nd sp sc existing = Inr row"
  obtains st rt rs tw ff where
    "text_column (dict_get sp ''socket_type'') (socket_type existing) = Inr st"
    "text_column (dict_get sp ''ram_type'') (ram_type existing) = Inr rt"
    "int_column (dict_get sp ''ram_speed'') (ram_speed existing) = Inr rs"
    "int_column (dict_get sp ''tdp_watts'') (tdp_watts existing) = Inr tw"
    "text_column (dict_get sp ''form_factor'') (form_factor existing) = Inr ff"
    "row = existing
            \<lparr>in_stock := Some True,
             last_scraped_at := Some now,
             price_dzd := price,
             manufacturer := (if truthy_str (nd_manufacturer nd) then nd_manufacturer nd
                              else manufacturer existing),
             model := (if truthy_str (nd_model nd) then nd_model nd else model existing),
             specs := (if sp \<noteq> [] then Some sp else specs existing),
             benchmark_score := score_or sc ''benchmark_score'' (benchmark_score existing),
             gaming_score := score_or sc ''gaming_score'' (gaming_score existing),
             productivity_score :=
               score_or sc ''productivity_score'' (productivity_score existing),
             ai_score := score_or sc ''ai_score'' (ai_score existing),
             socket_type := st, ram_type := rt, ram_speed := rs, tdp_watts := tw,
             form_factor := ff\<rparr>"
  using assms unfolding merge_row_def by (auto split: sum.splits)

lemma update_existing_Inr_iff:
  "update_existing db_accepts now price nd sp sc existing = Inr r \<longleftrightarrow>
     merge_row now price nd sp sc existing = Inr r \<and> db_accepts r"
  by (auto simp: update_existing_def split: sum.splits if_splits)

text \<open>
  A promoted value that is a non-empty list (the form factors of a case listing) cannot
  be stored in its string column: the commit fails and the stored row is as before.
\<close>

lemma list_form_factor_rolls_back:
  assumes "dict_get sp ''form_factor'' = Some (PList xs)" and "xs \<noteq> []"
  shows "commit_update db_accepts now price nd sp sc existing = existing"
proof -
  have refused: "text_column (dict_get sp ''form_factor'') (form_factor existing) = Inl DataError"
    using assms by (simp add: text_column_def)
  have "merge_row now price nd sp sc existing \<noteq> Inr m" for m
  proof
    assume "merge_row now price nd sp sc existing = Inr m"
    from merge_row_Inr [OF this] obtain ff where
      "text_column (dict_get sp ''form_factor'') (form_factor existing) = Inr ff"
      by blast
    with refused show False by simp
  qed
  then have "update_existing db_accepts now price nd sp sc existing \<noteq> Inr r" for r
    by (simp add: update_existing_Inr_iff)
  then show ?thesis
    by (cases "update_existing db_accepts now price nd sp sc existing")
       (auto simp: commit_update_def)
qed

lemma case_listing_rolls_back:
  assumes "dict_get (extract_specs ct nm ds) ''form_factor'' = Some (PList xs)" and "xs \<noteq> []"
  shows "ingest_existing db_accepts now
           \<lparr>l_name = nm, l_price_dzd = p, l_component_type = ct, l_description = ds\<rparr> existing
         = existing"
  by (simp add: ingest_existing_def Let_def list_form_factor_rolls_back [OF assms]
        split: sum.splits)

text \<open>
  The loop body on a listing whose row exists ends in one of two ways: the scorer raised
  and the row is as before, or the update ran on what was parsed, extracted and scored
  from the listing.
\<close>

lemma ingest_existing_outcome:
  "(\<exists>e. calculate_benchmark_scores (l_component_type comp_data) (l_name comp_data)
          (extract_specs (l_component_type comp_data) (l_name comp_data)
             (l_description comp_data)) = Inl e
        \<and> ingest_existing db_accepts now comp_data existing = existing)
   \<or> (\<exists>scores. calculate_benchmark_scores (l_component_type comp_data) (l_name comp_data)
          (extract_specs (l_component_type comp_data) (l_name comp_data)
             (l_description comp_data)) = Inr scores
        \<and> ingest_existing db_accepts now comp_data existing =
            commit_update db_accepts now (l_price_dzd comp_data)
              (parse_component_name (l_name comp_data) (l_component_type comp_data))
              (extract_specs (l_component_type comp_data) (l_name comp_data)
                 (l_description comp_data))
              scores existing)"
  by (cases "calculate_benchmark_scores (l_component_type comp_data) (l_name comp_data)
          (extract_specs (l_component_type comp_data) (l_name comp_data)
             (l_description comp_data))")
     (simp_all add: ingest_existing_def Let_def)








section \<open>Properties of the name normalizer\<close>

text \<open>
  C9. For the title \<^verbatim>\<open>AMD Ryzen 5 5600X 6-Core Processor\<close> and the category CPU (whose
  value, the string the pipeline passes, is \<^verbatim>\<open>cpu\<close>) the normalizer returns the
  manufacturer AMD and the model \<^verbatim>\<open>Ryzen 5 5600X 6-Core Processor\<close>, which contains
  \<^verbatim>\<open>5600X\<close>.
\<close>

theorem parse_component_name_ryzen:
  "nd_manufacturer (parse_component_name ''AMD Ryzen 5 5600X 6-Core Processor'' (type_value CPU))
     = Some ''AMD''
   \<and> nd_model (parse_component_name ''AMD Ryzen 5 5600X 6-Core Processor'' (type_value CPU))
     = Some ''Ryzen 5 5600X 6-Core Processor''
   \<and> contains ''5600X'' ''Ryzen 5 5600X 6-Core Processor''"
  by code_simp

section \<open>Properties of the specification extractor\<close>

lemma contains_prefix:
  "prefix a b \<Longrightarrow> contains b s \<Longrightarrow> contains a s"
proof (induction s)
  case Nil
  then show ?case by simp
next
  case (Cons c cs)
  then show ?case using prefix_order.trans by auto
qed

lemma gddr6x_has_gddr6: "contains ''gddr6x'' t \<Longrightarrow> contains ''gddr6'' t"
  using contains_prefix [of "''gddr6''" "''gddr6x''" t] by simp

lemma gpu_memory_type_not_gddr6x: "gpu_memory_type t \<noteq> Some (PStr ''GDDR6X'')"
  using gddr6x_has_gddr6 [of t] by (auto simp: gpu_memory_type_def)

lemma dict_get_dict_set:
  "dict_get (dict_set k v d) k' = (if k' = k then Some v else dict_get d k')"
  by (induction d) (auto simp: dict_get_def)

lemma dict_get_set_if:
  "dict_get (set_if k v d) k' = (if k' = k \<and> v \<noteq> None then v else dict_get d k')"
  by (cases v) (simp_all add: set_if_def dict_get_dict_set)

lemma dict_get_Nil: "dict_get [] k = None"
  by (simp add: dict_get_def)

lemma extract_gpu_memory_type:
  "dict_get (extract_gpu_specs nm ds) ''memory_type'' = gpu_memory_type (probe_text nm ds)"
  by (simp add: extract_gpu_specs_def Let_def dict_get_set_if dict_get_Nil)

lemma dict_get_drop_key:
  "dict_get (filter (\<lambda>kv. fst kv \<noteq> k) d) k' = (if k' = k then None else dict_get d k')"
  by (induction d) (auto simp: dict_get_def)

lemma calculate_gpu_scores_cong:
  assumes "dict_get sp ''vram_gb'' = dict_get sp' ''vram_gb''"
    and "dict_get sp ''memory_type'' \<noteq> Some (PStr ''GDDR6X'')"
    and "dict_get sp' ''memory_type'' \<noteq> Some (PStr ''GDDR6X'')"
  shows "calculate_gpu_scores nm sp = calculate_gpu_scores nm sp'"
  using assms
  by (auto simp: calculate_gpu_scores_def get_or_def Let_def split: prod.splits sum.splits)

text \<open>
  C10. Every probed text that contains \<^verbatim>\<open>gddr6x\<close> contains \<^verbatim>\<open>gddr6\<close>, and the test
  for \<^verbatim>\<open>gddr6\<close> comes first: the GPU extractor never returns
  \<^verbatim>\<open>memory_type = "GDDR6X"\<close>, directly or through the dispatch, and the scores of an
  extracted map are those of the same map without its memory type, so the GDDR6X bonus
  of the GPU scorer is never applied to it.
\<close>

theorem gddr6x_branch_unreachable:
  "(contains ''gddr6x'' (probe_text nm ds) \<longrightarrow> contains ''gddr6'' (probe_text nm ds))
   \<and> dict_get (extract_gpu_specs nm ds) ''memory_type'' \<noteq> Some (PStr ''GDDR6X'')
   \<and> dict_get (extract_specs ''gpu'' nm ds) ''memory_type'' \<noteq> Some (PStr ''GDDR6X'')
   \<and> calculate_benchmark_scores ''gpu'' nm' (extract_specs ''gpu'' nm ds)
       = calculate_benchmark_scores ''gpu'' nm'
           (filter (\<lambda>kv. fst kv \<noteq> ''memory_type'') (extract_specs ''gpu'' nm ds))"
proof -
  have e: "extract_specs ''gpu'' nm ds = extract_gpu_specs nm ds"
    by (simp add: extract_specs_def lower_def lower_char_def)
  have b: "calculate_benchmark_scores ''gpu'' n sp = calculate_gpu_scores n sp" for n sp
    by (simp add: calculate_benchmark_scores_def lower_def lower_char_def)
  have m: "dict_get (extract_gpu_specs nm ds) ''memory_type'' \<noteq> Some (PStr ''GDDR6X'')"
    by (simp add: extract_gpu_memory_type gpu_memory_type_not_gddr6x)
  have "calculate_gpu_scores nm' (extract_gpu_specs nm ds)
      = calculate_gpu_scores nm' (filter (\<lambda>kv. fst kv \<noteq> ''memory_type'') (extract_gpu_specs nm ds))"
    by (rule calculate_gpu_scores_cong) (simp_all add: dict_get_drop_key m)
  with m show ?thesis using gddr6x_has_gddr6 by (simp add: e b)
qed

theorem gddr6x_branch_unreachable_witness:
  "contains ''gddr6x'' (probe_text ''MSI RTX 3080 10GB GDDR6X'' '''')
   \<and> contains ''gddr6'' (probe_text ''MSI RTX 3080 10GB GDDR6X'' '''')
   \<and> dict_get (extract_gpu_specs ''MSI RTX 3080 10GB GDDR6X'' '''') ''memory_type''
       = Some (PStr ''GDDR6'')"
  using gddr6x_branch_unreachable [of "''MSI RTX 3080 10GB GDDR6X''" "''''" "''x''"]
  by code_simp

section \<open>The scorer on extracted maps\<close>

lemma digit_value_nonneg: "0 \<le> digit_value c"
  by (auto simp: digit_value_def split: option.splits if_splits)

lemma foldl_digits_nonneg:
  "0 \<le> acc \<Longrightarrow> 0 \<le> foldl (\<lambda>acc c. acc * 10 + digit_value c) acc s"
  by (induction s arbitrary: acc) (simp_all add: digit_value_nonneg)

lemma int_of_digits_nonneg: "0 \<le> int_of_digits s"
  by (simp add: int_of_digits_def foldl_digits_nonneg)

lemma search_int_cases:
  "search_int r t = None \<or> (\<exists>i. search_int r t = Some (PInt i) \<and> 0 \<le> i)"
  by (cases "search_group False r t") (simp_all add: search_int_def int_of_digits_nonneg)

lemma first_search_int_cases:
  "first_search_int rs t = None \<or> (\<exists>i. first_search_int rs t = Some (PInt i) \<and> 0 \<le> i)"
proof (induction rs)
  case Nil
  then show ?case by simp
next
  case (Cons r rs)
  then show ?case using search_int_cases [of r t] by auto
qed

text \<open>Lookups in an extracted map.\<close>

lemmas dg = get_or_def dict_get_set_if dict_get_Nil Let_def

text \<open>
  The values the extractor stores have the types the scorer expects: on an extracted map
  the scorer raises no \<^verbatim>\<open>TypeError\<close>. It returns, or a run of digits was beyond the
  float range.
\<close>

lemma as_float_int: "(\<exists>x. as_float (PInt i) = Inr x) \<or> as_float (PInt i) = Inl OverflowError"
  by simp

lemma true_div_int: "(\<exists>x. true_div (PInt i) n = Inr x) \<or> true_div (PInt i) n = Inl OverflowError"
  by simp

lemma cpu_pipeline_outcome:
  "(\<exists>d. calculate_cpu_scores nm' (extract_cpu_specs nm ds) = Inr d)
   \<or> calculate_cpu_scores nm' (extract_cpu_specs nm ds) = Inl OverflowError"
proof -
  have "\<exists>i. get_or (extract_cpu_specs nm ds) ''cores'' (PInt 0) = PInt i"
    using search_int_cases [of "number_before (Alt (Lit ''core'') (Lit ''cores''))" "probe_text nm ds"]
    by (auto simp: extract_cpu_specs_def dg)
  then obtain i where c: "get_or (extract_cpu_specs nm ds) ''cores'' (PInt 0) = PInt i"
    by blast
  have "\<exists>x. get_or (extract_cpu_specs nm ds) ''base_clock_ghz'' (PInt 0) = PFloat x
      \<or> get_or (extract_cpu_specs nm ds) ''base_clock_ghz'' (PInt 0) = PInt 0"
    by (cases "search_group False ghz_pattern (probe_text nm ds)")
       (auto simp: extract_cpu_specs_def dg)
  then obtain x where k: "get_or (extract_cpu_specs nm ds) ''base_clock_ghz'' (PInt 0) = PFloat x
      \<or> get_or (extract_cpu_specs nm ds) ''base_clock_ghz'' (PInt 0) = PInt 0"
    by blast
  from k show ?thesis
    by (auto simp: calculate_cpu_scores_def Let_def c split: prod.splits)
qed

lemma gpu_pipeline_returns: "\<exists>d. calculate_gpu_scores nm' (extract_gpu_specs nm ds) = Inr d"
proof -
  have "\<exists>i. get_or (extract_gpu_specs nm ds) ''vram_gb'' (PInt 0) = PInt i"
    using first_search_int_cases [of vram_patterns "probe_text nm ds"]
    by (auto simp: extract_gpu_specs_def dg)
  then show ?thesis
    by (auto simp: calculate_gpu_scores_def Let_def split: prod.splits)
qed

lemma ram_pipeline_outcome:
  "(\<exists>d. calculate_ram_scores nm' (extract_ram_specs nm ds) = Inr d)
   \<or> calculate_ram_scores nm' (extract_ram_specs nm ds) = Inl OverflowError"
proof -
  have "\<exists>i. get_or (extract_ram_specs nm ds) ''capacity_gb'' (PInt 0) = PInt i"
    using search_int_cases [of "number_before (Lit ''gb'')" "probe_text nm ds"]
    by (auto simp: extract_ram_specs_def dg)
  then obtain i where c: "get_or (extract_ram_specs nm ds) ''capacity_gb'' (PInt 0) = PInt i"
    by blast
  have "\<exists>j. get_or (extract_ram_specs nm ds) ''ram_speed'' (PInt 0) = PInt j"
    using search_int_cases [of mhz_pattern "probe_text nm ds"]
      search_int_cases [of ddr_speed_pattern "probe_text nm ds"]
    by (auto simp: extract_ram_specs_def dg)
  then obtain j where s: "get_or (extract_ram_specs nm ds) ''ram_speed'' (PInt 0) = PInt j"
    by blast
  show ?thesis by (simp add: calculate_ram_scores_def Let_def c s)
qed

lemma storage_type_score_text: "\<exists>x. storage_type_score (PStr s) = Inr x"
  by (auto simp: storage_type_score_def split: bool.splits)

lemma efficiency_bonus_text: "\<exists>x. efficiency_bonus (PStr s) = Inr x"
  by (auto simp: efficiency_bonus_def split: bool.splits)

lemma storage_pipeline_returns:
  "\<exists>d. calculate_storage_scores nm' (extract_storage_specs nm ds) = Inr d"
proof -
  have "\<exists>i. get_or (extract_storage_specs nm ds) ''capacity_gb'' (PInt 0) = PInt i"
    by (cases "search_group False (number_before (Alt (Lit ''gb'') (Lit ''tb''))) (probe_text nm ds)")
       (auto simp: extract_storage_specs_def dg)
  then obtain i where c: "get_or (extract_storage_specs nm ds) ''capacity_gb'' (PInt 0) = PInt i"
    by blast
  have "\<exists>s. get_or (extract_storage_specs nm ds) ''type'' (PStr []) = PStr s"
    by (auto simp: extract_storage_specs_def dg)
  then obtain s where t: "get_or (extract_storage_specs nm ds) ''type'' (PStr []) = PStr s"
    by blast
  from storage_type_score_text [of s] obtain x where "storage_type_score (PStr s) = Inr x"
    by blast
  then show ?thesis
    by (simp add: calculate_storage_scores_def Let_def c t)
qed

lemma psu_pipeline_returns: "\<exists>d. calculate_psu_scores nm' (extract_psu_specs nm ds) = Inr d"
proof -
  have "\<exists>i. get_or (extract_psu_specs nm ds) ''wattage'' (PInt 0) = PInt i"
    using search_int_cases [of watts_pattern "probe_text nm ds"]
    by (auto simp: extract_psu_specs_def dg)
  then obtain i where w: "get_or (extract_psu_specs nm ds) ''wattage'' (PInt 0) = PInt i"
    by blast
  have "\<exists>s. get_or (extract_psu_specs nm ds) ''efficiency'' (PStr []) = PStr s"
    by (auto simp: extract_psu_specs_def dg)
  then obtain s where e: "get_or (extract_psu_specs nm ds) ''efficiency'' (PStr []) = PStr s"
    by blast
  from efficiency_bonus_text [of s] obtain x where "efficiency_bonus (PStr s) = Inr x"
    by blast
  then show ?thesis
    by (simp add: calculate_psu_scores_def Let_def w e)
qed

lemma pipeline_scorer_outcome:
  "(\<exists>d. calculate_benchmark_scores ct nm' (extract_specs ct nm ds) = Inr d)
   \<or> calculate_benchmark_scores ct nm' (extract_specs ct nm ds) = Inl OverflowError"
  using cpu_pipeline_outcome gpu_pipeline_returns ram_pipeline_outcome
    storage_pipeline_returns psu_pipeline_returns
  by (simp add: calculate_benchmark_scores_def extract_specs_def Let_def)

text \<open>
  Whatever the category a map was extracted for, its capacity is absent or an integer
  that is not negative: it is read from a run of digits.
\<close>

lemma extracted_capacity_nonneg:
  "\<exists>i. get_or (extract_specs ct nm ds) ''capacity_gb'' (PInt 0) = PInt i \<and> 0 \<le> i"
proof -
  have ram: "\<exists>i. get_or (extract_ram_specs nm ds) ''capacity_gb'' (PInt 0) = PInt i \<and> 0 \<le> i"
    using search_int_cases [of "number_before (Lit ''gb'')" "probe_text nm ds"]
    by (auto simp: extract_ram_specs_def dg)
  have storage:
    "\<exists>i. get_or (extract_storage_specs nm ds) ''capacity_gb'' (PInt 0) = PInt i \<and> 0 \<le> i"
    by (cases "search_group False (number_before (Alt (Lit ''gb'') (Lit ''tb''))) (probe_text nm ds)")
       (auto simp: extract_storage_specs_def dg int_of_digits_nonneg)
  have cpu: "get_or (extract_cpu_specs nm ds) ''capacity_gb'' (PInt 0) = PInt 0"
    by (simp add: extract_cpu_specs_def dg)
  have gpu: "get_or (extract_gpu_specs nm ds) ''capacity_gb'' (PInt 0) = PInt 0"
    by (simp add: extract_gpu_specs_def dg)
  have mobo: "get_or (extract_motherboard_specs nm ds) ''capacity_gb'' (PInt 0) = PInt 0"
    by (simp add: extract_motherboard_specs_def dg)
  have psu: "get_or (extract_psu_specs nm ds) ''capacity_gb'' (PInt 0) = PInt 0"
    by (simp add: extract_psu_specs_def dg)
  have case_c: "get_or (extract_case_specs nm ds) ''capacity_gb'' (PInt 0) = PInt 0"
    by (simp add: extract_case_specs_def dg)
  have none: "get_or [] ''capacity_gb'' (PInt 0) = PInt 0"
    by (simp add: dg)
  from ram storage cpu gpu mobo psu case_c none show ?thesis
    by (simp add: extract_specs_def Let_def)
qed

text \<open>
  C1. For every category and name given to the scorer and every attribute map the
  extractor yields (for any category, title and description), the scorer's dictionary
  has the four scores, and each of them lies between 0 and 100 inclusive, whatever
  bonuses were added.
\<close>

theorem extracted_scores_in_range:
  assumes "calculate_benchmark_scores ct nm' (extract_specs ct' nm ds) = Inr d"
  shows "map fst d = [''benchmark_score'', ''gaming_score'', ''productivity_score'', ''ai_score'']
    \<and> (\<forall>k v. (k, v) \<in> set d \<longrightarrow> 0 \<le> v \<and> v \<le> 100)"
proof -
  from extracted_capacity_nonneg [of ct' nm ds] obtain i where
    "get_or (extract_specs ct' nm ds) ''capacity_gb'' (PInt 0) = PInt i" "0 \<le> i"
    by blast
  then have r: "lower ct = ''ram'' \<longrightarrow>
      (\<exists>c. as_number (get_or (extract_specs ct' nm ds) ''capacity_gb'' (PInt 0)) = Inr c \<and> 0 \<le> c)"
    by simp
  from benchmark_scores_shape [OF assms] r obtain b g p a where c: "d = capped b g p a"
    and nn: "0 \<le> b" "0 \<le> g" "0 \<le> p" "0 \<le> a"
    by metis
  have keys: "map fst d =
      [''benchmark_score'', ''gaming_score'', ''productivity_score'', ''ai_score'']"
    by (simp add: c capped_keys)
  have "\<forall>k v. (k, v) \<in> set d \<longrightarrow> 0 \<le> v \<and> v \<le> 100"
    using capped_upper [of _ _ b g p a] capped_lower [OF nn] by (auto simp: c)
  with keys show ?thesis by blast
qed

theorem extracted_scores_in_range_witness:
  "calculate_benchmark_scores ''ram'' ''Corsair 16GB DDR5''
       (extract_specs ''ram'' ''Corsair 16GB DDR5'' '''') =
     Inr [(''benchmark_score'', 60), (''gaming_score'', 18),
          (''productivity_score'', 100), (''ai_score'', 50)]
   \<and> list_all (\<lambda>kv. 0 \<le> snd kv \<and> snd kv \<le> 100)
        [(''benchmark_score'', 60), (''gaming_score'', 18),
         (''productivity_score'', 100), (''ai_score'', 50 :: real)]"
proof -
  have x: "extract_specs ''ram'' ''Corsair 16GB DDR5'' '''' =
      [(''capacity_gb'', PInt 16), (''ram_type'', PStr ''DDR5'')]"
    by code_simp
  have e: "calculate_benchmark_scores ''ram'' ''Corsair 16GB DDR5''
       (extract_specs ''ram'' ''Corsair 16GB DDR5'' '''') =
     Inr [(''benchmark_score'', 60), (''gaming_score'', 18),
          (''productivity_score'', 100), (''ai_score'', 50)]"
    unfolding x by (simp add: evb)
  from extracted_scores_in_range [OF e] e show ?thesis by simp
qed

end
